(* ===== verification/Prelude.thy ===== *)
theory Prelude
  imports Main "HOL-Library.Multiset"
begin

text \<open>
  Shared vocabulary of the development. A Python \<open>str\<close> is a sequence of Unicode code
  points and \<open>len\<close> counts code points, so a Python string is modelled as a list of
  code points (\<open>pystr\<close>); \<open>u\<close> turns an ASCII literal into that form, and the
  Cyrillic literals of the handlers are written as code point lists. Python's
  exceptions are values of \<open>py_error\<close>; a computation that may raise returns
  \<open>py_error + 'a\<close>. The generic helpers model Python built-ins the handlers call:
  \<open>str()\<close> of an integer, \<open>sep.join(xs)\<close>, \<open>str.replace\<close> of one character,
  and the first-error traversal that a list comprehension (or \<open>asyncio.gather\<close>)
  performs when an element raises.
\<close>

named_theorems eval_simps "equations that evaluate the model on concrete inputs"

type_synonym pystr = "nat list"

definition u :: "string \<Rightarrow> pystr" where
  "u s = map of_char s"

subsection \<open>Python exceptions\<close>

datatype py_error =
    KeyError pystr            \<comment> \<open>\<open>d[k]\<close> on a dict without key \<open>k\<close>\<close>
  | ClientError               \<comment> \<open>aiohttp: the request did not complete\<close>
  | ContentTypeError          \<comment> \<open>aiohttp: \<open>response.json()\<close> on a body that is not JSON\<close>
  | TokenValidationError      \<comment> \<open>aiogram: \<open>Bot(token)\<close> with a missing or malformed token\<close>
  | TelegramUnauthorizedError \<comment> \<open>aiogram: the Bot API refuses the token (\<open>getMe\<close>)\<close>

subsection \<open>Python built-ins on strings\<close>

text \<open>\<open>str(n)\<close> for a non-negative integer: decimal digits, code points 48..57.\<close>

fun str_nat :: "nat \<Rightarrow> pystr" where
  "str_nat n = (if n < 10 then [48 + n] else str_nat (n div 10) @ [48 + n mod 10])"

declare str_nat.simps [simp del]
declare str_nat.simps [eval_simps]

definition str_int :: "int \<Rightarrow> pystr" where
  "str_int i = (if i < 0 then 45 # str_nat (nat (- i)) else str_nat (nat i))"

declare str_int_def [eval_simps]

definition is_digit :: "nat \<Rightarrow> bool" where
  "is_digit c \<longleftrightarrow> 48 \<le> c \<and> c \<le> 57"

text \<open>\<open>sep.join(xs)\<close>.\<close>

fun py_join :: "pystr \<Rightarrow> pystr list \<Rightarrow> pystr" where
  "py_join sep [] = []"
| "py_join sep [x] = x"
| "py_join sep (x # y # xs) = x @ sep @ py_join sep (y # xs)"

declare py_join.simps [eval_simps]

text \<open>\<open>s.replace(a, b)\<close> where \<open>a\<close> and \<open>b\<close> are one character each.\<close>

definition py_replace1 :: "nat \<Rightarrow> nat \<Rightarrow> pystr \<Rightarrow> pystr" where
  "py_replace1 a b s = map (\<lambda>c. if c = a then b else c) s"

declare py_replace1_def [eval_simps]

text \<open>\<open>c * n\<close> for a one-character string \<open>c\<close>.\<close>

abbreviation rule_line :: "nat \<Rightarrow> nat \<Rightarrow> pystr" where
  "rule_line c n \<equiv> replicate n c"

text \<open>
  \<open>str.lower\<close> and \<open>str.upper\<close> on one code point, for the Latin letters A--Z,
  the basic Cyrillic letters (U+0410--U+044F) and Yo (U+0401, U+0451). Other code points are
  left unchanged; Python maps further scripts too, which the handlers' inputs (Russian and
  English city names, bot usernames) do not need.
\<close>

definition py_lower_char :: "nat \<Rightarrow> nat" where
  "py_lower_char c =
     (if 65 \<le> c \<and> c \<le> 90 then c + 32
      else if 1040 \<le> c \<and> c \<le> 1071 then c + 32
      else if c = 1025 then 1105 else c)"

definition py_upper_char :: "nat \<Rightarrow> nat" where
  "py_upper_char c =
     (if 97 \<le> c \<and> c \<le> 122 then c - 32
      else if 1072 \<le> c \<and> c \<le> 1103 then c - 32
      else if c = 1105 then 1025 else c)"

definition py_lower :: "pystr \<Rightarrow> pystr" where
  "py_lower s = map py_lower_char s"

text \<open>\<open>s.capitalize()\<close>: the first character upper (title) case, the rest lower case.
  The case maps above cover ASCII Latin and the Russian Cyrillic alphabet; every other
  code point is left unchanged, where Python would map letters of other scripts too.\<close>

definition py_capitalize :: "pystr \<Rightarrow> pystr" where
  "py_capitalize s = (case s of [] \<Rightarrow> [] | c # cs \<Rightarrow> py_upper_char c # map py_lower_char cs)"

declare py_lower_char_def [eval_simps] py_upper_char_def [eval_simps] py_lower_def [eval_simps]
  py_capitalize_def [eval_simps]

subsection \<open>Traversals that stop at the first exception\<close>

text \<open>
  \<open>[f(x) for x in xs]\<close> evaluates \<open>f\<close> left to right and propagates the first
  exception. The result list, when there is one, has the length of the input.
\<close>

fun py_map :: "('a \<Rightarrow> py_error + 'b) \<Rightarrow> 'a list \<Rightarrow> py_error + 'b list" where
  "py_map f [] = Inr []"
| "py_map f (x # xs) =
     (case f x of
        Inl e \<Rightarrow> Inl e
      | Inr y \<Rightarrow> (case py_map f xs of Inl e \<Rightarrow> Inl e | Inr ys \<Rightarrow> Inr (y # ys)))"

declare py_map.simps [eval_simps]

subsection \<open>Lemmas on the built-ins\<close>

lemma u_Nil [simp]: "u [] = []"
  and u_append [simp]: "u (s @ t) = u s @ u t"
  and length_u [simp]: "length (u s) = length s"
  and u_eq_Nil [simp]: "u s = [] \<longleftrightarrow> s = []"
  and Nil_eq_u [simp]: "[] = u s \<longleftrightarrow> s = []"
  by (simp_all add: u_def)

text \<open>Literals stay folded in general proofs; \<open>eval_simps\<close> unfolds them.\<close>

lemma u_Cons [eval_simps]: "u (c # s) = of_char c # u s"
  by (simp add: u_def)

lemma str_nat_digits: "\<forall>c \<in> set (str_nat n). is_digit c"
proof (induction n rule: str_nat.induct)
  case (1 n)
  then show ?case by (subst str_nat.simps) (auto simp: is_digit_def)
qed

lemma str_nat_ne [simp]: "str_nat n \<noteq> []"
  by (subst str_nat.simps) simp

lemma py_join_Nil_iff: "sep \<noteq> [] \<Longrightarrow> py_join sep xs = [] \<longleftrightarrow> xs = [] \<or> xs = [[]]"
  by (induction sep xs rule: py_join.induct) auto

lemma concat_map_concat: "concat (map concat xss) = concat (concat xss)"
  by (induction xss) auto

lemma py_map_Inr_iff:
  "py_map f xs = Inr ys \<longleftrightarrow> list_all2 (\<lambda>x y. f x = Inr y) xs ys"
proof (induction xs arbitrary: ys)
  case Nil
  then show ?case by auto
next
  case (Cons x xs)
  then show ?case
    by (cases "f x"; cases "py_map f xs") (auto simp: list_all2_Cons1)
qed

lemma py_map_Inr_length: "py_map f xs = Inr ys \<Longrightarrow> length ys = length xs"
  by (simp add: py_map_Inr_iff list_all2_lengthD)

lemma py_map_Inl_iff:
  "(\<exists>e. py_map f xs = Inl e) \<longleftrightarrow> (\<exists>x \<in> set xs. \<exists>e. f x = Inl e)"
  by (induction xs) (auto split: sum.splits)

lemma py_map_Inl_first:
  "py_map f xs = Inl e \<Longrightarrow>
     \<exists>i < length xs. f (xs ! i) = Inl e \<and> (\<forall>j < i. \<exists>y. f (xs ! j) = Inr y)"
proof (induction xs)
  case Nil
  then show ?case by simp
next
  case (Cons x xs)
  show ?case
  proof (cases "f x")
    case (Inl e')
    with Cons.prems show ?thesis by auto
  next
    case (Inr y)
    with Cons.prems obtain i where "i < length xs" "f (xs ! i) = Inl e"
        "\<forall>j < i. \<exists>y. f (xs ! j) = Inr y"
      using Cons.IH by (auto split: sum.splits)
    with Inr show ?thesis
      by (intro exI [of _ "Suc i"]) (auto simp: less_Suc_eq_0_disj)
  qed
qed

lemma py_map_map_Inr [simp]: "py_map (\<lambda>x. Inr (g x)) xs = Inr (map g xs)"
  by (induction xs) auto

text \<open>Splitting a list around an occurrence, one element at a time.\<close>

lemma ex_Cons_append:
  "(\<exists>xs ys. e # evs = xs @ x # ys \<and> P xs) \<longleftrightarrow>
     (e = x \<and> P []) \<or> (\<exists>xs ys. evs = xs @ x # ys \<and> P (e # xs))"
proof
  assume "\<exists>xs ys. e # evs = xs @ x # ys \<and> P xs"
  then obtain xs ys where "e # evs = xs @ x # ys" and "P xs"
    by blast
  then show "(e = x \<and> P []) \<or> (\<exists>xs ys. evs = xs @ x # ys \<and> P (e # xs))"
    by (cases xs) auto
next
  assume "(e = x \<and> P []) \<or> (\<exists>xs ys. evs = xs @ x # ys \<and> P (e # xs))"
  then show "\<exists>xs ys. e # evs = xs @ x # ys \<and> P xs"
  proof (elim disjE exE conjE)
    assume "e = x" and "P []"
    then show ?thesis
      by (intro exI [of _ "[]"] exI [of _ evs]) simp
  next
    fix xs ys
    assume "evs = xs @ x # ys" and "P (e # xs)"
    then show ?thesis
      by (intro exI [of _ "e # xs"] exI [of _ ys]) simp
  qed
qed

end
