(* ===== verification/NumberFormat.thy ===== *)
theory NumberFormat
  imports Prelude
begin

text \<open>
  \<open>number_format\<close> (handlers.py, lines 33--34) prints a salary bound:
  \<open>'{:,}'.format(number).replace(',', ' ')\<close>. Python's \<open>','\<close> format option
  writes the decimal digits of the integer with a comma between every group of three
  digits counted from the right (\<open>group3\<close>), after the sign; the \<open>replace\<close> then
  turns each comma (code point 44) into an ASCII space (code point 32). The lemmas show
  that nothing but separators is added (removing the spaces gives \<open>str(n)\<close> back),
  and that the groups have the shape of a thousands grouping.
\<close>

function group3 :: "pystr \<Rightarrow> pystr" where
  "group3 ds =
     (if length ds \<le> 3 then ds
      else group3 (take (length ds - 3) ds) @ [44] @ drop (length ds - 3) ds)"
  by pat_completeness auto
termination
  by (relation "measure length") auto

declare group3.simps [simp del]
declare group3.simps [eval_simps]

text \<open>\<open>'{:,}'.format(n)\<close> for a Python \<open>int\<close>.\<close>

definition format_thousands :: "int \<Rightarrow> pystr" where
  "format_thousands i =
     (if i < 0 then 45 # group3 (str_nat (nat (- i))) else group3 (str_nat (nat i)))"

definition number_format :: "int \<Rightarrow> pystr" where
  "number_format number = py_replace1 44 32 (format_thousands number)"

declare format_thousands_def [eval_simps] number_format_def [eval_simps]

subsection \<open>Shape of the grouping\<close>

lemma py_join_snoc:
  "gs \<noteq> [] \<Longrightarrow> py_join sep (gs @ [x]) = py_join sep gs @ sep @ x"
  by (induction sep gs rule: py_join.induct) auto

lemma map_py_join: "map f (py_join sep gs) = py_join (map f sep) (map (map f) gs)"
  by (induction sep gs rule: py_join.induct) auto

lemma group3_groups:
  "ds \<noteq> [] \<Longrightarrow> \<exists>gs. group3 ds = py_join [44] gs \<and> concat gs = ds \<and> gs \<noteq> [] \<and>
      0 < length (hd gs) \<and> length (hd gs) \<le> 3 \<and> (\<forall>g \<in> set (tl gs). length g = 3)"
proof (induction ds rule: group3.induct)
  case (1 ds)
  show ?case
  proof (cases "length ds \<le> 3")
    case True
    with "1.prems" show ?thesis
      by (intro exI [of _ "[ds]"]) (simp add: group3.simps [of ds])
  next
    case False
    let ?k = "length ds - 3"
    from False have "take ?k ds \<noteq> []" by (auto simp: take_eq_Nil)
    with False "1.IH" obtain gs where gs: "group3 (take ?k ds) = py_join [44] gs"
        "concat gs = take ?k ds" "gs \<noteq> []" "0 < length (hd gs)" "length (hd gs) \<le> 3"
        "\<forall>g \<in> set (tl gs). length g = 3"
      by blast
    have "group3 ds = py_join [44] (gs @ [drop ?k ds])"
      using False gs(1,3) by (simp add: group3.simps [of ds] py_join_snoc)
    moreover have "concat (gs @ [drop ?k ds]) = ds"
      using gs(2) by simp
    moreover have "hd (gs @ [drop ?k ds]) = hd gs"
      using gs(3) by simp
    moreover have "\<forall>g \<in> set (tl (gs @ [drop ?k ds])). length g = 3"
    proof -
      have "tl (gs @ [drop ?k ds]) = tl gs @ [drop ?k ds]"
        using gs(3) by (cases gs) simp_all
      moreover have "length (drop ?k ds) = 3"
        using False by simp
      ultimately show ?thesis
        using gs(6) by simp
    qed
    ultimately have "group3 ds = py_join [44] (gs @ [drop ?k ds]) \<and>
        concat (gs @ [drop ?k ds]) = ds \<and> gs @ [drop ?k ds] \<noteq> [] \<and>
        0 < length (hd (gs @ [drop ?k ds])) \<and> length (hd (gs @ [drop ?k ds])) \<le> 3 \<and>
        (\<forall>g \<in> set (tl (gs @ [drop ?k ds])). length g = 3)"
      using gs(4,5) by (simp only: simp_thms snoc_eq_iff_butlast)
    then show ?thesis by blast
  qed
qed

lemma group3_filter:
  "44 \<notin> set ds \<Longrightarrow> filter (\<lambda>c. c \<noteq> 44) (group3 ds) = ds"
proof (induction ds rule: group3.induct)
  case (1 ds)
  let ?P = "\<lambda>c. c \<noteq> (44::nat)"
  show ?case
  proof (cases "length ds \<le> 3")
    case True
    with "1.prems" show ?thesis
      by (auto simp: group3.simps [of ds] filter_id_conv)
  next
    case False
    let ?k = "length ds - 3"
    have t: "44 \<notin> set (take ?k ds)"
      using "1.prems" by (auto dest: in_set_takeD)
    have d: "filter ?P (drop ?k ds) = drop ?k ds"
      using "1.prems" by (auto simp: filter_id_conv dest: in_set_dropD)
    have "filter ?P (group3 ds) = filter ?P (group3 (take ?k ds)) @ filter ?P (drop ?k ds)"
      using False by (simp add: group3.simps [of ds])
    also have "\<dots> = take ?k ds @ drop ?k ds"
      using False "1.IH" t d by (simp add: filter_id_conv)
    finally show ?thesis by simp
  qed
qed

lemma digits_no_sep: "\<forall>c \<in> set (str_nat n). c \<noteq> 44 \<and> c \<noteq> 32"
  using str_nat_digits [of n] by (auto simp: is_digit_def)

lemma replace_digits_id: "map (\<lambda>c. if c = 44 then 32 else c) (str_nat n) = str_nat n"
  using digits_no_sep [of n] by (simp add: map_idI)

lemma number_format_ne: "number_format n \<noteq> []"
proof -
  have "group3 (str_nat m) \<noteq> []" for m
  proof
    assume "group3 (str_nat m) = []"
    moreover have "44 \<notin> set (str_nat m)"
      using digits_no_sep [of m] by auto
    ultimately show False
      using group3_filter [of "str_nat m"] str_nat_ne [of m] by simp
  qed
  then show ?thesis
    by (simp add: number_format_def format_thousands_def py_replace1_def)
qed

subsection \<open>Correctness of the formatting\<close>

lemma filter_replace_sep:
  "filter (\<lambda>c. c \<noteq> 32) (py_replace1 44 32 xs) =
     py_replace1 44 32 (filter (\<lambda>c. c \<noteq> 32) (filter (\<lambda>c. c \<noteq> 44) xs))"
  by (induction xs) (auto simp: py_replace1_def)

text \<open>
  Claim C18: \<open>number_format\<close> only adds separators. Deleting the spaces from
  \<open>number_format n\<close> gives exactly Python's \<open>str(n)\<close>, for every integer \<open>n\<close>.
\<close>

theorem number_format_separators_only:
  "filter (\<lambda>c. c \<noteq> 32) (number_format n) = str_int n"
proof -
  have d: "filter (\<lambda>c. c \<noteq> 32) (filter (\<lambda>c. c \<noteq> 44) (group3 (str_nat m))) = str_nat m" for m
  proof -
    have g: "filter (\<lambda>c. c \<noteq> 44) (group3 (str_nat m)) = str_nat m"
      using digits_no_sep [of m] by (intro group3_filter) blast
    have s: "filter (\<lambda>c. c \<noteq> 32) (str_nat m) = str_nat m"
      using digits_no_sep [of m] by (simp add: filter_id_conv)
    show ?thesis by (simp only: g s)
  qed
  show ?thesis
    using d [of "nat (- n)"] d [of "nat n"] replace_digits_id
    by (simp add: number_format_def format_thousands_def str_int_def filter_replace_sep)
       (simp add: py_replace1_def)
qed

text \<open>
  Claim C24: \<open>number_format\<close> groups digits by thousands. For a non-negative \<open>n\<close>,
  the output is the digit groups of \<open>str(n)\<close> joined by single spaces: the first group
  has one to three digits and every later group has exactly three.
\<close>

theorem number_format_groups:
  "\<exists>gs. number_format (int n) = py_join [32] gs \<and> concat gs = str_nat n \<and> gs \<noteq> [] \<and>
      0 < length (hd gs) \<and> length (hd gs) \<le> 3 \<and> (\<forall>g \<in> set (tl gs). length g = 3)"
proof -
  obtain gs where gs: "group3 (str_nat n) = py_join [44] gs" "concat gs = str_nat n" "gs \<noteq> []"
      "0 < length (hd gs)" "length (hd gs) \<le> 3" "\<forall>g \<in> set (tl gs). length g = 3"
    using group3_groups [of "str_nat n"] by auto
  have "\<forall>g \<in> set gs. map (\<lambda>c. if c = 44 then 32 else c) g = g"
    using digits_no_sep [of n] unfolding gs(2) [symmetric] by (auto intro!: map_idI)
  then have "map (map (\<lambda>c. if c = 44 then 32 else c)) gs = gs"
    by (simp add: map_idI)
  then have "number_format (int n) = py_join [32] gs"
    using gs(1) by (simp add: number_format_def format_thousands_def py_replace1_def map_py_join)
  with gs show ?thesis by blast
qed


theorem number_format_groups_witness:
  "\<exists>gs. number_format 1234567 = py_join [32] gs \<and> concat gs = u ''1234567''"
proof -
  obtain gs where "number_format (int 1234567) = py_join [32] gs" and "concat gs = str_nat 1234567"
    using number_format_groups [of 1234567] by blast
  moreover have "str_nat 1234567 = u ''1234567''"
    by (simp add: eval_simps)
  ultimately show ?thesis by auto
qed

end
