(* ===== verification/HhApi.thy ===== *)
theory HhApi
  imports Prelude
begin

text \<open>
  The data the handlers read from the hh.ru REST API, with only the fields the code
  touches, and the requests they make. A JSON \<open>null\<close> is \<open>None\<close>. The network is a
  record of two functions from a request URL to the reply. The search reply says whether
  the status was a success (\<open>response.ok\<close>) and what the body holds, or that the
  request did not complete (\<open>session.get\<close> raised), in which case the status is
  meaningless. The detail reply
  is a JSON body, a body that is not JSON, or a transport failure. \<open>read_items\<close> is
  \<open>(await response.json())['items']\<close> (handlers.py, lines 67 and 177), with its two
  ways to raise.
\<close>

record salary =
  sal_from :: "int option"
  sal_to :: "int option"
  sal_currency :: pystr

record vacancy =
  vac_id :: pystr
  vac_name :: pystr
  vac_salary :: "salary option"
  vac_experience :: pystr      \<comment> \<open>\<open>vacancy['experience']['name']\<close>\<close>
  vac_alternate_url :: pystr

datatype search_body =
    Items "vacancy list"         \<comment> \<open>a JSON object with an \<open>items\<close> array\<close>
  | No_Items                     \<comment> \<open>a JSON object without \<open>items\<close> (the API's error bodies)\<close>
  | Search_Not_Json              \<comment> \<open>not JSON; a JSON body that does not parse is folded in here\<close>
  | Search_Failed                \<comment> \<open>no response: \<open>session.get\<close> raised \<open>ClientError\<close>\<close>

record search_response =
  search_ok :: bool
  search_body :: search_body

text \<open>
  A detail body: \<open>None\<close> when it has no \<open>key_skills\<close> field, otherwise the
  \<open>name\<close> field of each entry of \<open>key_skills\<close> (\<open>None\<close> when an entry lacks it).
\<close>

datatype detail_reply =
    Detail_Json "pystr option list option"
  | Detail_Not_Json
  | Detail_Failed

text \<open>A message the bot sends: a text, or the pie chart of the skill ranking as its
  (label, value) pairs.\<close>

datatype reply = Answer pystr | Answer_Photo "(pystr \<times> nat) list"

record network =
  get_search :: "pystr \<Rightarrow> search_response"
  get_detail :: "pystr \<Rightarrow> detail_reply"

text \<open>\<open>msg_error\<close> is the warning both search handlers send when the search status is not
  a success, the Russian word for "error" (handlers.py, lines 65 and 175).\<close>

definition msg_error :: pystr where
  "msg_error = [1054, 1096, 1080, 1073, 1082, 1072]"

definition search_url :: "pystr \<Rightarrow> nat \<Rightarrow> pystr" where
  "search_url keyword page_count =
     u ''https://api.hh.ru/vacancies?text='' @ keyword @ u ''&area=1&per_page='' @
     str_nat page_count"

definition detail_url :: "vacancy \<Rightarrow> pystr" where
  "detail_url v = u ''https://api.hh.ru/vacancies/'' @ vac_id v"

definition read_items :: "search_response \<Rightarrow> py_error + vacancy list" where
  "read_items r =
     (case search_body r of
        Items vs \<Rightarrow> Inr vs
      | No_Items \<Rightarrow> Inl (KeyError (u ''items''))
      | Search_Not_Json \<Rightarrow> Inl ContentTypeError
      | Search_Failed \<Rightarrow> Inl ClientError)"

declare msg_error_def [eval_simps] search_url_def [eval_simps] detail_url_def [eval_simps] read_items_def [eval_simps]

end
