(* ===== verification/FanOut.thy ===== *)
theory FanOut
  imports HhApi
begin

text \<open>
  The detail fetcher and the concurrent fan-out of both search handlers.
  \<open>get_key_skills\<close> (handlers.py, lines 25--30) fetches one vacancy and returns the
  names of its key skills, or \<open>None\<close> (the implicit return) when the body has no
  \<open>key_skills\<close> field; a failed request, a body that is not JSON, or an entry without
  \<open>name\<close> raises. The handlers start one task per vacancy with
  \<open>asyncio.ensure_future\<close> and wait with \<open>asyncio.gather(*tasks)\<close> (lines 71--75 and
  180--184). The tasks run concurrently and finish in an order the model does not fix:
  \<open>gather\<close> takes that completion order as a schedule, a permutation of the task indices.
  Each finished task stores its value in its own slot, and the first task to raise makes
  \<open>gather\<close> raise. The lemmas show that a successful \<open>gather\<close> gives one result per
  vacancy, in input order, whatever the schedule. They also show that it fails exactly when
  one of the fetches fails. So the code does not degrade a failed detail fetch to a
  missing value: the whole handler aborts.
\<close>

definition skill_name :: "pystr option \<Rightarrow> py_error + pystr" where
  "skill_name e = (case e of None \<Rightarrow> Inl (KeyError (u ''name'')) | Some n \<Rightarrow> Inr n)"

definition get_key_skills :: "network \<Rightarrow> pystr \<Rightarrow> py_error + pystr list option" where
  "get_key_skills net url =
     (case get_detail net url of
        Detail_Failed \<Rightarrow> Inl ClientError
      | Detail_Not_Json \<Rightarrow> Inl ContentTypeError
      | Detail_Json None \<Rightarrow> Inr None
      | Detail_Json (Some es) \<Rightarrow>
          (case py_map skill_name es of Inl e \<Rightarrow> Inl e | Inr ns \<Rightarrow> Inr (Some ns)))"

declare skill_name_def [eval_simps] get_key_skills_def [eval_simps]

subsection \<open>\<open>asyncio.gather\<close> under a completion schedule\<close>

definition valid_schedule :: "nat \<Rightarrow> nat list \<Rightarrow> bool" where
  "valid_schedule n ord \<longleftrightarrow> distinct ord \<and> set ord = {..<n}"

text \<open>
  \<open>complete rs ord slots\<close>: the tasks finish in the order \<open>ord\<close>; task \<open>i\<close> has
  outcome \<open>rs ! i\<close>. A value goes to slot \<open>i\<close>; an exception is raised by \<open>gather\<close>.
\<close>

fun complete :: "(py_error + 'b) list \<Rightarrow> nat list \<Rightarrow> 'b option list \<Rightarrow> py_error + 'b option list" where
  "complete rs [] slots = Inr slots"
| "complete rs (i # ord) slots =
     (case rs ! i of Inl e \<Rightarrow> Inl e | Inr y \<Rightarrow> complete rs ord (slots[i := Some y]))"

definition gather :: "nat list \<Rightarrow> (py_error + 'b) list \<Rightarrow> py_error + 'b list" where
  "gather ord rs =
     (case complete rs ord (replicate (length rs) None) of
        Inl e \<Rightarrow> Inl e
      | Inr slots \<Rightarrow> Inr (map the slots))"

definition fetch_all :: "network \<Rightarrow> nat list \<Rightarrow> vacancy list \<Rightarrow> py_error + pystr list option list" where
  "fetch_all net ord vs = gather ord (map (\<lambda>v. get_key_skills net (detail_url v)) vs)"

declare valid_schedule_def [eval_simps] complete.simps [eval_simps] gather_def [eval_simps]
  fetch_all_def [eval_simps]

text \<open>Sample data for the witnesses: a vacancy with only an id, and a network on which
  vacancy 7 lists the skill SQL, the request for vacancy 9 fails, and every other detail
  body has no \<open>key_skills\<close>.\<close>

abbreviation sample_vac :: "pystr \<Rightarrow> vacancy" where
  "sample_vac i \<equiv> \<lparr>vac_id = i, vac_name = [], vac_salary = None, vac_experience = [],
     vac_alternate_url = []\<rparr>"

abbreviation sample_net :: network where
  "sample_net \<equiv> \<lparr>get_search = (\<lambda>_. \<lparr>search_ok = True, search_body = No_Items\<rparr>),
     get_detail = (\<lambda>url. if url = u ''https://api.hh.ru/vacancies/7''
       then Detail_Json (Some [Some (u ''SQL'')])
       else if url = u ''https://api.hh.ru/vacancies/9'' then Detail_Failed
       else Detail_Json None)\<rparr>"

subsection \<open>What \<open>gather\<close> returns\<close>

abbreviation store_all :: "(py_error + 'b) list \<Rightarrow> nat list \<Rightarrow> 'b option list \<Rightarrow> 'b option list" where
  "store_all rs ord slots \<equiv> fold (\<lambda>i s. s[i := Some (projr (rs ! i))]) ord slots"

lemma complete_Inr_iff:
  "complete rs ord slots = Inr slots' \<longleftrightarrow>
     (\<forall>i \<in> set ord. \<not> isl (rs ! i)) \<and> slots' = store_all rs ord slots"
proof (induction ord arbitrary: slots)
  case Nil
  then show ?case by auto
next
  case (Cons i ord)
  then show ?case by (cases "rs ! i") auto
qed

lemma complete_Inl:
  "complete rs ord slots = Inl e \<Longrightarrow> \<exists>i \<in> set ord. rs ! i = Inl e"
  by (induction ord arbitrary: slots) (auto split: sum.splits)

lemma complete_fails_iff:
  "(\<exists>e. complete rs ord slots = Inl e) \<longleftrightarrow> (\<exists>i \<in> set ord. isl (rs ! i))"
  by (induction ord arbitrary: slots) (auto split: sum.splits)

lemma store_all_length [simp]: "length (store_all rs ord slots) = length slots"
  by (induction ord arbitrary: slots) auto

lemma store_all_nth:
  "\<forall>i \<in> set ord. i < length slots \<Longrightarrow> j < length slots \<Longrightarrow>
     store_all rs ord slots ! j = (if j \<in> set ord then Some (projr (rs ! j)) else slots ! j)"
  by (induction ord arbitrary: slots) (auto simp: nth_list_update)

lemma store_all_schedule:
  assumes "set ord = {..<length rs}"
  shows "map the (store_all rs ord (replicate (length rs) None)) = map projr rs"
proof (rule nth_equalityI)
  fix j
  assume "j < length (map the (store_all rs ord (replicate (length rs) None)))"
  then show "map the (store_all rs ord (replicate (length rs) None)) ! j = map projr rs ! j"
    using assms by (simp add: store_all_nth)
qed simp

lemma Inr_projr: "\<not> isl x \<Longrightarrow> Inr (projr x) = x"
  by (cases x) auto

lemma all_Inr_iff: "((\<forall>x \<in> set rs. \<not> isl x) \<and> ys = map projr rs) \<longleftrightarrow> rs = map Inr ys"
proof
  assume a: "(\<forall>x \<in> set rs. \<not> isl x) \<and> ys = map projr rs"
  then have "map Inr ys = map (\<lambda>x. Inr (projr x)) rs"
    by simp
  also have "\<dots> = rs"
    using a by (simp add: Inr_projr map_idI)
  finally show "rs = map Inr ys" by simp
next
  assume "rs = map Inr ys"
  then show "(\<forall>x \<in> set rs. \<not> isl x) \<and> ys = map projr rs"
    by (simp add: comp_def)
qed

lemma set_schedule_nth: "set ord = {..<length rs} \<Longrightarrow> (\<forall>i \<in> set ord. P (rs ! i)) \<longleftrightarrow> (\<forall>x \<in> set rs. P x)"
  by (simp add: all_set_conv_all_nth) (simp add: Ball_def)

lemma gather_Inr_iff:
  assumes "valid_schedule (length rs) ord"
  shows "gather ord rs = Inr ys \<longleftrightarrow> rs = map Inr ys"
proof -
  have s: "set ord = {..<length rs}"
    using assms by (simp add: valid_schedule_def)
  have "gather ord rs = Inr ys \<longleftrightarrow> (\<forall>x \<in> set rs. \<not> isl x) \<and> ys = map projr rs"
    using store_all_schedule [OF s] set_schedule_nth [OF s, of "\<lambda>x. \<not> isl x"]
    by (auto simp: gather_def complete_Inr_iff split: sum.splits dest!: complete_Inl)
  also have "\<dots> \<longleftrightarrow> rs = map Inr ys"
    by (rule all_Inr_iff)
  finally show ?thesis .
qed

lemma gather_fails_iff:
  assumes "valid_schedule (length rs) ord"
  shows "(\<exists>e. gather ord rs = Inl e) \<longleftrightarrow> (\<exists>e. Inl e \<in> set rs)"
proof -
  have s: "set ord = {..<length rs}"
    using assms by (simp add: valid_schedule_def)
  have "(\<exists>e. gather ord rs = Inl e) \<longleftrightarrow> (\<exists>e. complete rs ord (replicate (length rs) None) = Inl e)"
    by (auto simp: gather_def split: sum.splits)
  also have "\<dots> \<longleftrightarrow> (\<exists>x \<in> set rs. isl x)"
    using complete_fails_iff [of rs ord] set_schedule_nth [OF s, of "\<lambda>x. \<not> isl x"]
    by (simp add: Bex_def Ball_def) blast
  also have "\<dots> \<longleftrightarrow> (\<exists>e. Inl e \<in> set rs)"
    by (auto simp: isl_def)
  finally show ?thesis .
qed

lemma gather_Inl_from_task:
  assumes "valid_schedule (length rs) ord" and "gather ord rs = Inl e"
  shows "Inl e \<in> set rs"
proof -
  from assms(2) have "complete rs ord (replicate (length rs) None) = Inl e"
    by (simp add: gather_def split: sum.splits)
  then obtain i where "i \<in> set ord" and "rs ! i = Inl e"
    by (blast dest: complete_Inl)
  have "i < length rs"
    using assms(1) \<open>i \<in> set ord\<close> by (auto simp: valid_schedule_def)
  then have "rs ! i \<in> set rs"
    by (rule nth_mem)
  with \<open>rs ! i = Inl e\<close> show ?thesis
    by simp
qed

lemma fetch_all_all_ok:
  assumes "valid_schedule (length vs) ord"
    and "\<forall>v \<in> set vs. \<exists>ks. get_key_skills net (detail_url v) = Inr ks"
  shows "\<exists>kss. fetch_all net ord vs = Inr kss \<and> length kss = length vs \<and>
     (\<forall>i < length vs. get_key_skills net (detail_url (vs ! i)) = Inr (kss ! i))"
proof -
  let ?rs = "map (\<lambda>v. get_key_skills net (detail_url v)) vs"
  have "\<forall>x \<in> set ?rs. \<not> isl x"
    using assms(2) by auto
  then have "?rs = map Inr (map projr ?rs)"
    using all_Inr_iff [of ?rs "map projr ?rs"] by simp
  then have "fetch_all net ord vs = Inr (map projr ?rs)"
    using assms(1) gather_Inr_iff [of ?rs ord "map projr ?rs"] by (simp add: fetch_all_def)
  moreover have "get_key_skills net (detail_url (vs ! i)) = Inr (map projr ?rs ! i)" if "i < length vs" for i
    using that \<open>?rs = map Inr (map projr ?rs)\<close> by (metis length_map nth_map)
  ultimately show ?thesis by auto
qed

subsection \<open>The detail fetch and the fan-out\<close>

lemma skill_name_Inr: "skill_name x = Inr y \<longleftrightarrow> x = Some y"
  by (cases x) (simp_all add: skill_name_def)

lemma py_map_skill_name: "py_map skill_name es = Inr ns \<longleftrightarrow> es = map Some ns"
proof -
  have "py_map skill_name es = Inr ns \<longleftrightarrow> list_all2 (\<lambda>x y. x = Some y) es ns"
    by (simp add: py_map_Inr_iff skill_name_Inr)
  also have "\<dots> \<longleftrightarrow> list_all2 (=) es (map Some ns)"
    by (simp add: list_all2_map2)
  also have "\<dots> \<longleftrightarrow> es = map Some ns"
    by (rule list_all2_eq [symmetric])
  finally show ?thesis .
qed

text \<open>
  Claim C16: \<open>get_key_skills\<close> reads the body faithfully. It returns
  \<open>Some ns\<close> exactly when the body's \<open>key_skills\<close> entries all have names,
  namely \<open>ns\<close> in order. It returns \<open>None\<close>, which is not an error, exactly when the
  body has no \<open>key_skills\<close> field.
\<close>

theorem get_key_skills_result:
  "(get_key_skills net url = Inr (Some ns) \<longleftrightarrow> get_detail net url = Detail_Json (Some (map Some ns))) \<and>
   (get_key_skills net url = Inr None \<longleftrightarrow> get_detail net url = Detail_Json None)"
proof (cases "get_detail net url")
  case (Detail_Json opt)
  show ?thesis
  proof (cases opt)
    case None
    with Detail_Json show ?thesis by (simp add: get_key_skills_def)
  next
    case (Some es)
    have "get_key_skills net url = Inr (Some ns) \<longleftrightarrow> py_map skill_name es = Inr ns"
      using Detail_Json Some by (simp add: get_key_skills_def split: sum.split)
    also have "\<dots> \<longleftrightarrow> es = map Some ns"
      by (rule py_map_skill_name)
    finally show ?thesis
      using Detail_Json Some by (simp add: get_key_skills_def split: sum.split)
  qed
qed (simp_all add: get_key_skills_def)

text \<open>
  Claim C4: the fan-out is positional. Whatever order the detail requests complete in,
  a successful \<open>gather\<close> returns exactly one result per vacancy. The \<open>i\<close>-th result is
  the value that \<open>get_key_skills\<close> returned for the \<open>i\<close>-th vacancy's detail URL.
\<close>

theorem fetch_all_positional:
  assumes "valid_schedule (length vs) ord"
  shows "fetch_all net ord vs = Inr kss \<longleftrightarrow>
     length kss = length vs \<and> (\<forall>i < length vs. get_key_skills net (detail_url (vs ! i)) = Inr (kss ! i))"
proof -
  let ?rs = "map (\<lambda>v. get_key_skills net (detail_url v)) vs"
  have "fetch_all net ord vs = Inr kss \<longleftrightarrow> ?rs = map Inr kss"
    using gather_Inr_iff [of ?rs ord] assms by (simp add: fetch_all_def)
  also have "\<dots> \<longleftrightarrow> length kss = length vs \<and>
      (\<forall>i < length vs. get_key_skills net (detail_url (vs ! i)) = Inr (kss ! i))"
    by (auto simp: list_eq_iff_nth_eq)
  finally show ?thesis .
qed

theorem fetch_all_positional_witness:
  "fetch_all sample_net [1, 0] [sample_vac (u ''7''), sample_vac (u ''8'')] =
     Inr [Some [u ''SQL''], None]"
proof (rule fetch_all_positional [THEN iffD2])
  show "valid_schedule (length [sample_vac (u ''7''), sample_vac (u ''8'')]) [1, 0]"
    by (simp add: valid_schedule_def) auto
  show "length [Some [u ''SQL''], None] = length [sample_vac (u ''7''), sample_vac (u ''8'')] \<and>
    (\<forall>i < length [sample_vac (u ''7''), sample_vac (u ''8'')].
       get_key_skills sample_net (detail_url ([sample_vac (u ''7''), sample_vac (u ''8'')] ! i)) =
       Inr ([Some [u ''SQL''], None] ! i))"
    by (simp add: eval_simps less_Suc_eq)
qed


text \<open>
  Claim C5: one failed detail request aborts the fan-out. Under any schedule,
  \<open>gather\<close> raises exactly when the detail fetch of some vacancy raises. A failed
  fetch is therefore never turned into a missing skill list at its position.
\<close>

theorem fetch_all_aborts:
  assumes "valid_schedule (length vs) ord"
  shows "(\<exists>e. fetch_all net ord vs = Inl e) \<longleftrightarrow>
     (\<exists>v \<in> set vs. \<exists>e. get_key_skills net (detail_url v) = Inl e)"
proof -
  let ?rs = "map (\<lambda>v. get_key_skills net (detail_url v)) vs"
  have "(\<exists>e. fetch_all net ord vs = Inl e) \<longleftrightarrow> (\<exists>e. Inl e \<in> set ?rs)"
    using assms gather_fails_iff [of ?rs ord] by (simp add: fetch_all_def)
  also have "\<dots> \<longleftrightarrow> (\<exists>v \<in> set vs. \<exists>e. get_key_skills net (detail_url v) = Inl e)"
    by (simp add: image_iff eq_commute) blast
  finally show ?thesis .
qed

theorem fetch_all_aborts_witness:
  "\<exists>e. fetch_all sample_net [2, 0, 1]
     [sample_vac (u ''7''), sample_vac (u ''9''), sample_vac (u ''8'')] = Inl e"
proof (rule fetch_all_aborts [THEN iffD2])
  show "valid_schedule (length [sample_vac (u ''7''), sample_vac (u ''9''), sample_vac (u ''8'')])
      [2, 0, 1]"
    by (simp add: valid_schedule_def) auto
  have "get_key_skills sample_net (detail_url (sample_vac (u ''9''))) = Inl ClientError"
    by (simp add: eval_simps)
  then show "\<exists>v \<in> set [sample_vac (u ''7''), sample_vac (u ''9''), sample_vac (u ''8'')].
      \<exists>e. get_key_skills sample_net (detail_url v) = Inl e"
    by auto
qed

end
