(* ===== verification/Digest.thy ===== *)
theory Digest
  imports NumberFormat FanOut
begin

text \<open>
  The vacancy digest of \<open>cmd_job\<close> (handlers.py, lines 77--116). Each vacancy is
  rendered as one text block: its rank, its name, a salary line when the vacancy has a
  salary, a rule of 28 dashes, the experience label, a key-skills line when the joined
  skills are not empty, the public URL and a rule of 28 equals signs. The blocks are
  collected into messages by the loop at lines 105--111. A block goes into the current
  message if the message stays shorter than 4096 code points; otherwise the current
  message is sent and the block starts a new one. The last message is sent at the end,
  and a fixed "not found" text is sent instead when nothing was collected. Code point 10
  is the newline. The Russian literals are written as code point lists, with their
  meaning in the comments.
\<close>

definition txt_ot :: pystr where
  "txt_ot = [1086, 1090]"    \<comment> \<open>"from"\<close>

definition txt_do :: pystr where
  "txt_do = [1076, 1086]"    \<comment> \<open>"to"\<close>

definition txt_experience :: pystr where
  "txt_experience = [1054, 1087, 1099, 1090, 32, 1088, 1072, 1073, 1086, 1090, 1099, 58, 32]"
    \<comment> \<open>"Work experience: "\<close>

definition msg_not_found :: pystr where
  "msg_not_found = [1053, 1077, 32, 1085, 1072, 1081, 1076, 1077, 1085, 1086, 32,
     1074, 1072, 1082, 1072, 1085, 1089, 1080, 1081]"    \<comment> \<open>"No vacancies found"\<close>

definition message_limit :: nat where
  "message_limit = 4096"

text \<open>Python truthiness of a JSON number (\<open>None\<close> and \<open>0\<close> are false) and of an
  optional string, and an f-string hole holding an optional string (\<open>None\<close> prints as
  \<open>None\<close>).\<close>

definition py_truthy_int :: "int option \<Rightarrow> bool" where
  "py_truthy_int x = (case x of None \<Rightarrow> False | Some n \<Rightarrow> n \<noteq> 0)"

definition py_truthy_str :: "pystr option \<Rightarrow> bool" where
  "py_truthy_str x = (case x of None \<Rightarrow> False | Some s \<Rightarrow> s \<noteq> [])"

definition py_fstr :: "pystr option \<Rightarrow> pystr" where
  "py_fstr x = (case x of None \<Rightarrow> u ''None'' | Some s \<Rightarrow> s)"

text \<open>Lines 81--82: \<open>number_format(b) if b else None\<close>.\<close>

definition fmt_bound :: "int option \<Rightarrow> pystr option" where
  "fmt_bound b = (if py_truthy_int b then Some (number_format (the b)) else None)"

text \<open>Lines 84--87.\<close>

definition salary_text :: "salary \<Rightarrow> pystr" where
  "salary_text sal =
     (let frm = fmt_bound (sal_from sal); to = fmt_bound (sal_to sal)
      in if py_truthy_str frm \<and> py_truthy_str to
         then txt_ot @ [32] @ py_fstr frm @ [32] @ txt_do @ [32] @ py_fstr to
         else if py_truthy_str frm then txt_ot @ [32] @ py_fstr frm
         else txt_do @ [32] @ py_fstr to)"

text \<open>Lines 80--89: the salary line, only when the vacancy has a salary object.\<close>

definition salary_line :: "salary option \<Rightarrow> pystr" where
  "salary_line s = (case s of None \<Rightarrow> [] | Some sal \<Rightarrow> salary_text sal @ u '' RUB'' @ [10])"

text \<open>Lines 95--100: \<open>key_skills[i]\<close> is a list, or \<open>None\<close> for a body without skills.\<close>

definition key_skill_line :: "pystr list option \<Rightarrow> pystr" where
  "key_skill_line ks =
     (let key_skill = (case ks of Some l \<Rightarrow> if l \<noteq> [] then py_join (u '', '') l else [] | None \<Rightarrow> [])
      in if key_skill \<noteq> [] then u ''Key Skills: '' @ key_skill @ [10, 10] else [])"

text \<open>Lines 78--103: the block of the vacancy at index \<open>i\<close>.\<close>

definition render_block :: "nat \<Rightarrow> vacancy \<Rightarrow> pystr list option \<Rightarrow> pystr" where
  "render_block i v ks =
     str_nat (i + 1) @ u ''. '' @ vac_name v @ [10] @
     salary_line (vac_salary v) @
     rule_line 45 28 @ [10] @
     txt_experience @ vac_experience v @ [10, 10] @
     key_skill_line ks @
     vac_alternate_url v @ [10, 10] @
     rule_line 61 28 @ [10]"

text \<open>Line 77: \<open>for i, vacancy in enumerate(vacancies)\<close>, with \<open>key_skills[i]\<close>.\<close>

definition render_blocks :: "vacancy list \<Rightarrow> pystr list option list \<Rightarrow> pystr list" where
  "render_blocks vs kss = map (\<lambda>i. render_block i (vs ! i) (kss ! i)) [0..<length vs]"

text \<open>Lines 105--111: \<open>paginate mes blocks\<close> returns the messages sent inside the loop
  and the final value of \<open>mes\<close>.\<close>

fun paginate :: "pystr \<Rightarrow> pystr list \<Rightarrow> pystr list \<times> pystr" where
  "paginate mes [] = ([], mes)"
| "paginate mes (s # ss) =
     (if length (mes @ s) < message_limit then paginate (mes @ s) ss
      else (let (sent, last) = paginate s ss in (mes # sent, last)))"

text \<open>Lines 113--116: the last message, or the "not found" text.\<close>

definition digest_messages :: "pystr list \<Rightarrow> pystr list" where
  "digest_messages blocks =
     (let (sent, mes) = paginate [] blocks
      in sent @ [if mes = [] then msg_not_found else mes])"

text \<open>
  The same loop one level up: \<open>page_groups g blocks\<close> returns the groups of blocks that
  form the messages, starting from the group \<open>g\<close> already collected. It is used in
  the proofs only; \<open>paginate_page_groups\<close> shows that the code's string accumulator
  computes the concatenations of these groups.
\<close>

fun page_groups :: "pystr list \<Rightarrow> pystr list \<Rightarrow> pystr list list" where
  "page_groups g [] = [g]"
| "page_groups g (s # ss) =
     (if length (concat g @ s) < message_limit then page_groups (g @ [s]) ss
      else g # page_groups [s] ss)"

declare txt_ot_def [eval_simps] txt_do_def [eval_simps] txt_experience_def [eval_simps]
  msg_not_found_def [eval_simps] message_limit_def [eval_simps] py_truthy_int_def [eval_simps]
  py_truthy_str_def [eval_simps] py_fstr_def [eval_simps] fmt_bound_def [eval_simps]
  salary_text_def [eval_simps] salary_line_def [eval_simps] key_skill_line_def [eval_simps]
  render_block_def [eval_simps] render_blocks_def [eval_simps] digest_messages_def [eval_simps]

lemma page_groups_ne [simp]: "page_groups g ss \<noteq> []"
  by (induction g ss rule: page_groups.induct) auto

lemma paginate_page_groups:
  "paginate (concat g) ss = (map concat (butlast (page_groups g ss)), concat (last (page_groups g ss)))"
proof (induction g ss rule: page_groups.induct)
  case (1 g)
  then show ?case by simp
next
  case (2 g s ss)
  then show ?case
    by (cases "length (concat g @ s) < message_limit") (simp_all add: butlast_append)
qed

lemma concat_page_groups: "concat (page_groups g ss) = g @ ss"
  by (induction g ss rule: page_groups.induct) auto

lemma hd_page_groups: "\<exists>t. hd (page_groups g ss) = g @ t"
  by (induction g ss rule: page_groups.induct) auto

lemma page_groups_nonempty: "g \<noteq> [] \<Longrightarrow> [] \<notin> set (page_groups g ss)"
  by (induction g ss rule: page_groups.induct) auto

lemma page_groups_tl_nonempty: "[] \<notin> set (tl (page_groups g ss))"
  by (induction g ss rule: page_groups.induct) (auto simp: page_groups_nonempty)

lemma page_groups_fit:
  "(2 \<le> length g \<longrightarrow> length (concat g) < message_limit) \<Longrightarrow>
     \<forall>h \<in> set (page_groups g ss). 2 \<le> length h \<longrightarrow> length (concat h) < message_limit"
proof (induction g ss rule: page_groups.induct)
  case (1 g)
  then show ?case by simp
next
  case (2 g s ss)
  show ?case
  proof (cases "length (concat g @ s) < message_limit")
    case True
    then have "2 \<le> length (g @ [s]) \<longrightarrow> length (concat (g @ [s])) < message_limit"
      by simp
    with True "2.IH"(1) show ?thesis by simp
  next
    case False
    with "2.prems" "2.IH"(2) show ?thesis by simp
  qed
qed

lemma page_groups_greedy:
  "Suc i < length (page_groups g ss) \<Longrightarrow>
     message_limit \<le> length (concat (page_groups g ss ! i) @ hd (page_groups g ss ! Suc i))"
proof (induction g ss arbitrary: i rule: page_groups.induct)
  case (1 g)
  then show ?case by simp
next
  case (2 g s ss)
  show ?case
  proof (cases "length (concat g @ s) < message_limit")
    case True
    with "2.IH"(1) "2.prems" show ?thesis by simp
  next
    case False
    obtain t where t: "hd (page_groups [s] ss) = [s] @ t"
      using hd_page_groups by blast
    show ?thesis
    proof (cases i)
      case 0
      with False t show ?thesis by (simp add: hd_conv_nth [symmetric])
    next
      case (Suc j)
      with False "2.IH"(2) "2.prems" show ?thesis by simp
    qed
  qed
qed

lemma hd_page_groups_Nil:
  "hd (page_groups [] (s # ss)) = [] \<longleftrightarrow> message_limit \<le> length s"
proof (cases "length s < message_limit")
  case True
  obtain t where "hd (page_groups [s] ss) = [s] @ t"
    using hd_page_groups by blast
  with True show ?thesis by simp
next
  case False
  then show ?thesis by simp
qed


lemma last_page_group_ne:
  assumes "blocks \<noteq> []"
  shows "last (page_groups [] blocks) \<noteq> []"
proof (cases "tl (page_groups [] blocks) = []")
  case True
  then have "page_groups [] blocks = [hd (page_groups [] blocks)]"
    by (metis list.collapse page_groups_ne)
  then have "last (page_groups [] blocks) = concat (page_groups [] blocks)"
    by (metis concat.simps(1) concat.simps(2) append_Nil2 last.simps)
  with assms show ?thesis by (simp add: concat_page_groups)
next
  case False
  then have "last (page_groups [] blocks) \<in> set (tl (page_groups [] blocks))"
    by (metis last_in_set last_tl page_groups_ne)
  with page_groups_tl_nonempty show ?thesis by metis
qed

lemma digest_messages_page_groups:
  assumes "blocks \<noteq> []" and "[] \<notin> set blocks"
  shows "digest_messages blocks = map concat (page_groups [] blocks)"
proof -
  let ?gs = "page_groups [] blocks"
  have "set (last ?gs) \<subseteq> set blocks"
    using concat_page_groups [of "[]" blocks] by (metis last_in_set page_groups_ne self_append_conv2
        set_concat UN_I subsetI)
  with assms(2) last_page_group_ne [OF assms(1)] have ne: "concat (last ?gs) \<noteq> []"
    by (metis concat_eq_Nil_conv last_in_set subset_iff)
  have "paginate [] blocks = (map concat (butlast ?gs), concat (last ?gs))"
    using paginate_page_groups [of "[]" blocks] by simp
  moreover have "(if concat (last ?gs) = [] then msg_not_found else concat (last ?gs)) =
      concat (last ?gs)"
    using ne by (rule if_not_P)
  ultimately have "digest_messages blocks = map concat (butlast ?gs) @ [concat (last ?gs)]"
    unfolding digest_messages_def by (simp only: prod.case Let_def)
  also have "\<dots> = map concat ?gs"
    by (metis append_butlast_last_id map_append list.simps(8,9) page_groups_ne)
  finally show ?thesis .
qed

subsection \<open>The messages of the digest\<close>

text \<open>
  Claim C1: the digest partitions the blocks into messages. For a non-empty list of
  non-empty blocks, the messages are the concatenations of consecutive groups of blocks.
  The groups together are exactly the blocks in their order, so no block is split,
  dropped or moved. Every group after the first is non-empty. A group of two or more
  blocks is shorter than 4096 code points. The loop is greedy: a message together with
  the first block of the next message would reach the limit.
\<close>

theorem digest_messages_partition:
  assumes "blocks \<noteq> []" and "[] \<notin> set blocks"
  shows "\<exists>gs. digest_messages blocks = map concat gs \<and> concat gs = blocks \<and> [] \<notin> set (tl gs) \<and>
    (\<forall>g \<in> set gs. 2 \<le> length g \<longrightarrow> length (concat g) < message_limit) \<and>
    (\<forall>i. Suc i < length gs \<longrightarrow> message_limit \<le> length (concat (gs ! i) @ hd (gs ! Suc i)))"
  using digest_messages_page_groups [OF assms] concat_page_groups [of "[]" blocks]
    page_groups_tl_nonempty [of "[]" blocks] page_groups_fit [of "[]" blocks]
    page_groups_greedy [of _ "[]" blocks]
  by (intro exI [of _ "page_groups [] blocks"]) simp

theorem digest_messages_partition_witness:
  "concat (digest_messages [u ''a'', u ''b'']) = u ''ab''"
proof -
  obtain gs where "digest_messages [u ''a'', u ''b''] = map concat gs"
      and "concat gs = [u ''a'', u ''b'']"
    using digest_messages_partition [of "[u ''a'', u ''b'']"] by auto
  then show ?thesis by (simp add: concat_map_concat eval_simps)
qed

text \<open>
  Claim C2: every message fits. When every block is non-empty and shorter than 4096 code
  points, every message the digest sends is non-empty and shorter than 4096 code points.
\<close>

theorem digest_messages_bound:
  assumes "\<forall>b \<in> set blocks. b \<noteq> [] \<and> length b < message_limit"
  shows "\<forall>m \<in> set (digest_messages blocks). m \<noteq> [] \<and> length m < message_limit"
proof (cases blocks)
  case Nil
  then show ?thesis by (simp add: digest_messages_def eval_simps)
next
  case (Cons b bs)
  let ?gs = "page_groups [] blocks"
  have nb: "[] \<notin> set blocks" using assms by auto
  have "hd ?gs \<noteq> []"
    using hd_page_groups_Nil [of b bs] assms Cons by auto
  then have ne: "[] \<notin> set ?gs"
    using page_groups_tl_nonempty [of "[]" blocks] by (metis list.collapse page_groups_ne set_ConsD)
  have "set (concat ?gs) = set blocks"
    by (simp add: concat_page_groups)
  then have sub: "\<forall>g \<in> set ?gs. set g \<subseteq> set blocks"
    by auto
  have "concat g \<noteq> [] \<and> length (concat g) < message_limit" if g: "g \<in> set ?gs" for g
  proof -
    have "g \<noteq> []" using g ne by auto
    with g sub nb have "concat g \<noteq> []"
      by (metis concat_eq_Nil_conv hd_in_set subsetD)
    moreover have "length (concat g) < message_limit"
    proof (cases "2 \<le> length g")
      case True
      with g page_groups_fit [of "[]" blocks] show ?thesis by simp
    next
      case False
      with \<open>g \<noteq> []\<close> obtain x where "g = [x]"
        by (cases g) (auto simp: Suc_le_eq)
      with g sub assms show ?thesis by auto
    qed
    ultimately show ?thesis ..
  qed
  with digest_messages_page_groups [of blocks] Cons nb show ?thesis by auto
qed

theorem digest_messages_bound_witness:
  "u ''abcd'' \<noteq> [] \<and> length (u ''abcd'') < message_limit"
proof -
  have "\<forall>m \<in> set (digest_messages [u ''ab'', u ''cd'']). m \<noteq> [] \<and> length m < message_limit"
    by (rule digest_messages_bound) (simp add: message_limit_def)
  moreover have "digest_messages [u ''ab'', u ''cd''] = [u ''abcd'']"
    by (simp add: eval_simps)
  ultimately show ?thesis by simp
qed

text \<open>
  Claim C14: a first block of 4096 code points or more makes the first message empty.
  The loop tests \<open>len(mes + s) < 4096\<close> with \<open>mes = ''\<close>, fails, and sends the
  empty \<open>mes\<close> before starting a message with the block. Telegram rejects an empty
  message.
\<close>

theorem digest_first_message_empty:
  assumes "blocks \<noteq> []" and "[] \<notin> set blocks" and "message_limit \<le> length (hd blocks)"
  shows "hd (digest_messages blocks) = []"
proof -
  obtain b bs where "blocks = b # bs" using assms(1) by (cases blocks) auto
  with assms show ?thesis
    using digest_messages_page_groups [OF assms(1,2)] hd_page_groups_Nil [of b bs]
    by (simp add: hd_map)
qed


theorem digest_first_message_empty_witness:
  "hd (digest_messages [replicate 4096 65, u ''b'']) = []"
  by (rule digest_first_message_empty) (simp_all add: message_limit_def)


subsection \<open>The salary line\<close>

lemma fmt_bound_truthy: "py_truthy_int b \<Longrightarrow> fmt_bound b = Some (number_format (the b))"
  by (simp add: fmt_bound_def)

lemma fmt_bound_falsy: "\<not> py_truthy_int b \<Longrightarrow> fmt_bound b = None"
  by (simp add: fmt_bound_def)

lemma truthy_number_format: "py_truthy_str (Some (number_format n))"
  using number_format_ne by (simp add: py_truthy_str_def)

lemma falsy_None: "\<not> py_truthy_str None"
  by (simp add: py_truthy_str_def)

lemmas salary_text_simps = salary_line_def salary_text_def fmt_bound_truthy fmt_bound_falsy
  truthy_number_format falsy_None py_fstr_def

text \<open>
  Claim C13: the salary line of every salary object. The currency field never changes it,
  so every salary is shown in RUB. It is never omitted: it is a non-empty text followed by
  " RUB". When neither bound is truthy (both null or 0) it reads "to None RUB", where the
  spec omits the line. Each truthy bound appears in it, formatted by \<open>number_format\<close>.
\<close>

theorem salary_line_object:
  "salary_line (Some (sal\<lparr>sal_currency := c\<rparr>)) = salary_line (Some sal) \<and>
   (\<exists>p. p \<noteq> [] \<and> salary_line (Some sal) = p @ u '' RUB'' @ [10]) \<and>
   (\<not> py_truthy_int (sal_from sal) \<and> \<not> py_truthy_int (sal_to sal) \<longrightarrow>
      salary_line (Some sal) = txt_do @ u '' None RUB'' @ [10]) \<and>
   (py_truthy_int (sal_from sal) \<longrightarrow>
      (\<exists>xs ys. salary_line (Some sal) = xs @ number_format (the (sal_from sal)) @ ys)) \<and>
   (py_truthy_int (sal_to sal) \<longrightarrow>
      (\<exists>xs ys. salary_line (Some sal) = xs @ number_format (the (sal_to sal)) @ ys))"
proof (intro conjI impI)
  show "salary_line (Some (sal\<lparr>sal_currency := c\<rparr>)) = salary_line (Some sal)"
    by (simp add: salary_line_def salary_text_def)
  show "\<exists>p. p \<noteq> [] \<and> salary_line (Some sal) = p @ u '' RUB'' @ [10]"
    by (intro exI [of _ "salary_text sal"]) (simp add: salary_line_def salary_text_def Let_def txt_ot_def txt_do_def)
  show "salary_line (Some sal) = txt_do @ u '' None RUB'' @ [10]"
    if "\<not> py_truthy_int (sal_from sal) \<and> \<not> py_truthy_int (sal_to sal)"
    using that by (simp add: salary_line_def salary_text_def fmt_bound_def py_truthy_str_def py_fstr_def eval_simps)
  show "\<exists>xs ys. salary_line (Some sal) = xs @ number_format (the (sal_from sal)) @ ys"
    if "py_truthy_int (sal_from sal)"
  proof (cases "py_truthy_int (sal_to sal)")
    case True
    with that show ?thesis
      by (intro exI [of _ "txt_ot @ [32]"]
          exI [of _ "[32] @ txt_do @ [32] @ number_format (the (sal_to sal)) @ u '' RUB'' @ [10]"])
        (simp add: salary_text_simps)
  next
    case False
    with that show ?thesis
      by (intro exI [of _ "txt_ot @ [32]"] exI [of _ "u '' RUB'' @ [10]"]) (simp add: salary_text_simps)
  qed
  show "\<exists>xs ys. salary_line (Some sal) = xs @ number_format (the (sal_to sal)) @ ys"
    if "py_truthy_int (sal_to sal)"
  proof (cases "py_truthy_int (sal_from sal)")
    case True
    with that show ?thesis
      by (intro exI [of _ "txt_ot @ [32] @ number_format (the (sal_from sal)) @ [32] @ txt_do @ [32]"]
          exI [of _ "u '' RUB'' @ [10]"])
        (simp add: salary_text_simps)
  next
    case False
    with that show ?thesis
      by (intro exI [of _ "txt_do @ [32]"] exI [of _ "u '' RUB'' @ [10]"]) (simp add: salary_text_simps)
  qed
qed

theorem salary_line_object_witness:
  "salary_line (Some \<lparr>sal_from = None, sal_to = Some 0, sal_currency = u ''USD''\<rparr>) =
     txt_do @ u '' None RUB'' @ [10] \<and>
   (\<exists>xs ys. salary_line (Some \<lparr>sal_from = Some 100000, sal_to = None, sal_currency = u ''USD''\<rparr>) =
     xs @ number_format 100000 @ ys)"
  using salary_line_object [where sal = "\<lparr>sal_from = None, sal_to = Some 0, sal_currency = u ''USD''\<rparr>"]
    salary_line_object [where sal = "\<lparr>sal_from = Some 100000, sal_to = None, sal_currency = u ''USD''\<rparr>"]
  by (simp add: py_truthy_int_def)

text \<open>
  The key-skills line is present exactly when the joined skills are not empty.
  A vacancy whose detail body has no \<open>key_skills\<close> field, or an empty list of
  skills, gets no such line.
\<close>

theorem key_skill_line_present:
  "key_skill_line ks \<noteq> [] \<longleftrightarrow> (\<exists>l. ks = Some l \<and> py_join (u '', '') l \<noteq> [])"
  by (cases ks) (auto simp: key_skill_line_def Let_def)

end
