(* ===== verification/SkillRank.thy ===== *)
theory SkillRank
  imports FanOut
begin

text \<open>
  The skill ranking of \<open>cmd_enter_count\<close> (handlers.py, lines 167 and 186--201). The
  dict \<open>key_skills_count\<close> is an association list in insertion order, as a Python
  dict iterates. A skill seen for the first time is appended with count 1, and a known
  skill has its count raised in place (\<open>count_skill\<close>). Absent skill lists are
  skipped. \<open>sorted(d.items(), key=lambda x: x[1], reverse=True)\<close> is a stable sort
  by descending count, which keeps equal counts in their original order. It is modelled
  with the library's stable insertion sort on the negated count (\<open>py_sorted_desc\<close>).
  Python's Timsort is stable too, and a stable sort by a key has only one result, so
  both give the same list. The slice \<open>[:10]\<close> keeps the first ten.
  The main lemma (\<open>tally_eq\<close>) says what the dict holds: each distinct skill in
  first-occurrence order, with the number of its occurrences over all skill lists.
\<close>

type_synonym skill_counts = "(pystr \<times> nat) list"

text \<open>Lines 191--195, for one skill.\<close>

fun count_skill :: "skill_counts \<Rightarrow> pystr \<Rightarrow> skill_counts" where
  "count_skill [] k = [(k, 1)]"
| "count_skill ((k', c) # d) k = (if k' = k then (k', c + 1) # d else (k', c) # count_skill d k)"

text \<open>Lines 187--195, for one vacancy's skill list.\<close>

definition tally_item :: "skill_counts \<Rightarrow> pystr list option \<Rightarrow> skill_counts" where
  "tally_item d ks = (case ks of None \<Rightarrow> d | Some l \<Rightarrow> fold (\<lambda>k d. count_skill d k) l d)"

text \<open>Lines 167 and 186--195.\<close>

definition tally :: "pystr list option list \<Rightarrow> skill_counts" where
  "tally kss = fold (\<lambda>ks d. tally_item d ks) kss []"

definition diagram_field_count :: nat where
  "diagram_field_count = 10"

text \<open>Line 199: \<open>sorted(..., key=lambda x: x[1], reverse=True)\<close>.\<close>

definition py_sorted_desc :: "skill_counts \<Rightarrow> skill_counts" where
  "py_sorted_desc d = sort_key (\<lambda>p. - int (snd p)) d"

text \<open>Lines 197--201: the (label, value) pairs handed to the pie chart.\<close>

definition rank_skills :: "pystr list option list \<Rightarrow> (pystr \<times> nat) list" where
  "rank_skills kss = take diagram_field_count (py_sorted_desc (tally kss))"

text \<open>The skills of all vacancies, in order, with absent lists contributing nothing.\<close>

definition all_skills :: "pystr list option list \<Rightarrow> pystr list" where
  "all_skills kss = concat (map (\<lambda>ks. case ks of None \<Rightarrow> [] | Some l \<Rightarrow> l) kss)"

text \<open>The distinct elements of a list in the order of their first occurrence.\<close>

definition first_occurrences :: "'a list \<Rightarrow> 'a list" where
  "first_occurrences xs = rev (remdups (rev xs))"

declare count_skill.simps [eval_simps] tally_item_def [eval_simps] tally_def [eval_simps]
  diagram_field_count_def [eval_simps] py_sorted_desc_def [eval_simps]
  rank_skills_def [eval_simps] all_skills_def [eval_simps] first_occurrences_def [eval_simps]

subsection \<open>The tally\<close>

lemma first_occurrences_snoc:
  "first_occurrences (xs @ [x]) = (if x \<in> set xs then first_occurrences xs else first_occurrences xs @ [x])"
  by (simp add: first_occurrences_def)

lemma first_occurrences_Nil [simp]: "first_occurrences [] = []"
  by (simp add: first_occurrences_def)

lemma distinct_first_occurrences [simp]: "distinct (first_occurrences xs)"
  by (simp add: first_occurrences_def)

lemma set_first_occurrences [simp]: "set (first_occurrences xs) = set xs"
  by (simp add: first_occurrences_def)

lemma count_skill_map:
  "distinct ks \<Longrightarrow> count_skill (map (\<lambda>k'. (k', f k')) ks) k =
     (if k \<in> set ks then map (\<lambda>k'. (k', if k' = k then f k' + 1 else f k')) ks
      else map (\<lambda>k'. (k', f k')) ks @ [(k, 1)])"
  by (induction ks) auto

lemma count_list_snoc: "count_list (xs @ [x]) y = count_list xs y + (if x = y then 1 else 0)"
  by (induction xs) auto

lemma count_skill_counts:
  "count_skill (map (\<lambda>k. (k, count_list xs k)) (first_occurrences xs)) x =
     map (\<lambda>k. (k, count_list (xs @ [x]) k)) (first_occurrences (xs @ [x]))"
proof (cases "x \<in> set xs")
  case True
  then show ?thesis
    by (simp add: count_skill_map first_occurrences_snoc count_list_snoc)
next
  case False
  then have "count_list xs x = 0" by (simp add: count_list_0_iff)
  with False show ?thesis
    by (simp add: count_skill_map first_occurrences_snoc count_list_snoc) blast
qed

lemma fold_count_skill:
  "fold (\<lambda>k d. count_skill d k) l (map (\<lambda>k. (k, count_list xs k)) (first_occurrences xs)) =
     map (\<lambda>k. (k, count_list (xs @ l) k)) (first_occurrences (xs @ l))"
proof (induction l arbitrary: xs)
  case Nil
  then show ?case by simp
next
  case (Cons x l)
  then show ?case
    using Cons.IH [of "xs @ [x]"] by (simp add: count_skill_counts)
qed

lemma tally_fold:
  "fold (\<lambda>ks d. tally_item d ks) kss (map (\<lambda>k. (k, count_list xs k)) (first_occurrences xs)) =
     map (\<lambda>k. (k, count_list (xs @ all_skills kss) k)) (first_occurrences (xs @ all_skills kss))"
proof (induction kss arbitrary: xs)
  case Nil
  then show ?case by (simp add: all_skills_def)
next
  case (Cons ks kss)
  show ?case
  proof (cases ks)
    case None
    with Cons.IH [of xs] show ?thesis by (simp add: tally_item_def all_skills_def)
  next
    case (Some l)
    with Cons.IH [of "xs @ l"] show ?thesis
      by (simp add: tally_item_def all_skills_def fold_count_skill)
  qed
qed

lemma tally_eq:
  "tally kss = map (\<lambda>k. (k, count_list (all_skills kss) k)) (first_occurrences (all_skills kss))"
  using tally_fold [of kss "[]"] by (simp add: tally_def)


lemma py_sorted_desc_sorted: "sorted_wrt (\<lambda>a b. snd b \<le> snd a) (py_sorted_desc d)"
proof -
  have "sorted (map (\<lambda>p. - int (snd p)) (sort_key (\<lambda>p. - int (snd p)) d))"
    by (rule sorted_sort_key)
  then show ?thesis
    by (simp add: py_sorted_desc_def sorted_map)
qed

lemma mset_py_sorted_desc [simp]: "mset (py_sorted_desc d) = mset d"
  by (simp add: py_sorted_desc_def)

lemma set_py_sorted_desc [simp]: "set (py_sorted_desc d) = set d"
  by (simp add: py_sorted_desc_def)

lemma py_sorted_desc_stable:
  "filter (\<lambda>p. snd p = c) (py_sorted_desc d) = filter (\<lambda>p. snd p = c) d"
proof -
  have "filter (\<lambda>p. - int (snd p) = - int c) (sort_key (\<lambda>p. - int (snd p)) d) =
        filter (\<lambda>p. - int (snd p) = - int c) d"
    by (rule sort_key_stable)
  then show ?thesis by (simp add: py_sorted_desc_def)
qed

lemma filter_take_prefix: "\<exists>n. filter P (take m xs) = take n (filter P xs)"
proof (induction xs arbitrary: m)
  case Nil
  then show ?case by simp
next
  case (Cons x xs)
  show ?case
  proof (cases m)
    case 0
    then show ?thesis by (intro exI [of _ 0]) simp
  next
    case (Suc m')
    obtain n where "filter P (take m' xs) = take n (filter P xs)"
      using Cons.IH by blast
    with Suc show ?thesis
      by (cases "P x") (auto intro: exI [of _ "Suc n"])
  qed
qed

subsection \<open>The ranking\<close>

text \<open>
  Claim C6: the tally counts raw occurrences in first-seen order. Looking a skill up in
  the dict gives the number of times it occurs over all the skill lists, counting
  duplicates within one vacancy and skipping absent lists. A skill that never occurs has
  no entry. The dict's keys are the distinct skills in order of their first occurrence.
\<close>

theorem tally_dict:
  "map_of (tally kss) k =
     (if k \<in> set (all_skills kss) then Some (count_list (all_skills kss) k) else None) \<and>
   map fst (tally kss) = first_occurrences (all_skills kss)"
proof -
  have "map_of (map (\<lambda>k. (k, count_list xs k)) ys) k =
      (if k \<in> set ys then Some (count_list xs k) else None)" for xs ys :: "pystr list"
    by (induction ys) auto
  then show ?thesis
    by (simp add: tally_eq comp_def)
qed

text \<open>
  Claim C7: the ranking is sorted by count, highest first, and has at most ten entries.
\<close>

theorem rank_skills_sorted:
  "sorted_wrt (\<lambda>a b. snd b \<le> snd a) (rank_skills kss) \<and> length (rank_skills kss) \<le> 10"
  using py_sorted_desc_sorted [of "tally kss"]
  by (simp add: rank_skills_def diagram_field_count_def sorted_wrt_take)

text \<open>
  Claim C8: the ranking keeps the most frequent skills. A skill that occurs but is not in
  the ranking occurs at most as often as every skill that is.
\<close>

theorem rank_skills_top:
  assumes "(k, c) \<in> set (rank_skills kss)" and "k' \<in> set (all_skills kss)"
    and "k' \<notin> fst ` set (rank_skills kss)"
  shows "count_list (all_skills kss) k' \<le> c"
proof -
  let ?L = "py_sorted_desc (tally kss)"
  let ?n = "diagram_field_count"
  have "(k', count_list (all_skills kss) k') \<in> set ?L"
    using assms(2) by (simp add: tally_eq)
  moreover have "(k', count_list (all_skills kss) k') \<notin> set (take ?n ?L)"
    using assms(3) by (force simp: rank_skills_def)
  ultimately have "(k', count_list (all_skills kss) k') \<in> set (drop ?n ?L)"
    by (metis Un_iff append_take_drop_id set_append)
  moreover have "(k, c) \<in> set (take ?n ?L)"
    using assms(1) by (simp add: rank_skills_def)
  moreover have "\<forall>x \<in> set (take ?n ?L). \<forall>y \<in> set (drop ?n ?L). snd y \<le> snd x"
  proof -
    have "sorted_wrt (\<lambda>a b. snd b \<le> snd a) (take ?n ?L @ drop ?n ?L)"
      using py_sorted_desc_sorted [of "tally kss"] by (simp only: append_take_drop_id)
    then show ?thesis
      unfolding sorted_wrt_append by blast
  qed
  ultimately show ?thesis
    by fastforce
qed

theorem rank_skills_top_witness:
  "count_list (all_skills [Some [u ''a'', u ''b'', u ''c'', u ''d'', u ''e'', u ''f'', u ''g'', u ''h'',
     u ''i'', u ''j'', u ''k'']]) (u ''k'') \<le> 1"
proof (rule rank_skills_top)
  show "(u ''a'', 1) \<in> set (rank_skills [Some [u ''a'', u ''b'', u ''c'', u ''d'', u ''e'', u ''f'',
      u ''g'', u ''h'', u ''i'', u ''j'', u ''k'']])"
    by (simp add: eval_simps)
  show "u ''k'' \<in> set (all_skills [Some [u ''a'', u ''b'', u ''c'', u ''d'', u ''e'', u ''f'', u ''g'',
      u ''h'', u ''i'', u ''j'', u ''k'']])"
    by (simp add: eval_simps)
  show "u ''k'' \<notin> fst ` set (rank_skills [Some [u ''a'', u ''b'', u ''c'', u ''d'', u ''e'', u ''f'',
      u ''g'', u ''h'', u ''i'', u ''j'', u ''k'']])"
    by (simp add: eval_simps)
qed

text \<open>
  Claim C9: ties keep first-seen order. For every count, the ranked skills with that
  count are the first ones of the skills with that count, in the order in which they
  first occur in the tally.
\<close>

theorem rank_ties_first_seen:
  "\<exists>n. filter (\<lambda>p. snd p = c) (rank_skills kss) = take n (filter (\<lambda>p. snd p = c) (tally kss))"
proof -
  obtain n where "filter (\<lambda>p. snd p = c) (rank_skills kss) =
      take n (filter (\<lambda>p. snd p = c) (py_sorted_desc (tally kss)))"
    using filter_take_prefix by (metis rank_skills_def)
  then show ?thesis
    by (auto simp: py_sorted_desc_stable)
qed

text \<open>
  Claim C15: the chart data is well formed: its labels are distinct (they are the keys of the
  tally dict), every value is a positive count, and every label is a skill that occurs in
  the fetched lists.
\<close>

theorem rank_skills_wellformed:
  "distinct (map fst (rank_skills kss)) \<and>
   list_all (\<lambda>(k, c). 0 < c \<and> k \<in> set (all_skills kss)) (rank_skills kss)"
proof -
  let ?T = "tally kss"
  have dT: "distinct (map fst ?T)"
    by (simp add: tally_eq comp_def)
  have "mset (map fst (py_sorted_desc ?T)) = mset (map fst ?T)"
    by simp
  then have "distinct (map fst (py_sorted_desc ?T))"
    using dT mset_eq_imp_distinct_iff by blast
  then have d: "distinct (map fst (rank_skills kss))"
    by (simp add: rank_skills_def take_map [symmetric])
  have "set (rank_skills kss) \<subseteq> set ?T"
    using set_take_subset [of diagram_field_count "py_sorted_desc ?T"] by (simp add: rank_skills_def)
  moreover have "0 < c \<and> k \<in> set (all_skills kss)" if "(k, c) \<in> set ?T" for k c
    using that count_list_0_iff [of "all_skills kss" k] by (auto simp: tally_eq)
  ultimately show ?thesis
    using d by (auto simp: list_all_iff)
qed

end
