(* ===== verification/Handlers.thy ===== *)
theory Handlers
  imports Digest SkillRank
begin

text \<open>
  The bodies of the two search handlers after the keyword is read: \<open>cmd_job\<close>
  (handlers.py, lines 57--116) and \<open>cmd_enter_count\<close> (lines 166--208). Each makes
  one search request, sends the error text when the status is not a success and then goes
  on regardless (lines 64--67 and 174--177). It reads \<open>items\<close>, fans the detail
  requests out, and then sends the digest messages or the skill chart. A handler run is
  the list of replies it sent together with the exception that ended it, if one did
  (aiogram logs it and the user sees nothing more). \<open>sched n\<close> is the order in which
  \<open>n\<close> concurrent detail requests complete.
\<close>

type_synonym scheduler = "nat \<Rightarrow> nat list"

type_synonym run = "reply list \<times> py_error option"

definition valid_scheduler :: "scheduler \<Rightarrow> bool" where
  "valid_scheduler sched \<longleftrightarrow> (\<forall>n. valid_schedule n (sched n))"

definition job_page_count :: nat where
  "job_page_count = 30"

definition skills_page_count :: nat where
  "skills_page_count = 100"

text \<open>Lines 61--67 and 171--177: the request, which raises before any reply when it does not
  complete, the warning on a failure status, and \<open>items\<close>.\<close>

definition search_step :: "network \<Rightarrow> pystr \<Rightarrow> nat \<Rightarrow> reply list \<times> (py_error + vacancy list)" where
  "search_step net keyword page_count =
     (let response = get_search net (search_url keyword page_count)
      in if search_body response = Search_Failed then ([], Inl ClientError)
         else (if search_ok response then [] else [Answer msg_error], read_items response))"

text \<open>Lines 57--116.\<close>

definition cmd_job_search :: "network \<Rightarrow> scheduler \<Rightarrow> pystr \<Rightarrow> run" where
  "cmd_job_search net sched keyword =
     (let (warn, items) = search_step net keyword job_page_count
      in case items of
           Inl e \<Rightarrow> (warn, Some e)
         | Inr vacancies \<Rightarrow>
             (case fetch_all net (sched (length vacancies)) vacancies of
                Inl e \<Rightarrow> (warn, Some e)
              | Inr key_skills \<Rightarrow>
                  (warn @ map Answer (digest_messages (render_blocks vacancies key_skills)), None)))"

text \<open>Lines 166--208; the chart is sent as the (label, value) pairs it is drawn from.\<close>

definition cmd_key_skills_search :: "network \<Rightarrow> scheduler \<Rightarrow> pystr \<Rightarrow> run" where
  "cmd_key_skills_search net sched keyword =
     (let (warn, items) = search_step net keyword skills_page_count
      in case items of
           Inl e \<Rightarrow> (warn, Some e)
         | Inr vacancies \<Rightarrow>
             (case fetch_all net (sched (length vacancies)) vacancies of
                Inl e \<Rightarrow> (warn, Some e)
              | Inr key_skills \<Rightarrow> (warn @ [Answer_Photo (rank_skills key_skills)], None)))"

declare valid_scheduler_def [eval_simps] job_page_count_def [eval_simps]
  skills_page_count_def [eval_simps] search_step_def [eval_simps]
  cmd_job_search_def [eval_simps] cmd_key_skills_search_def [eval_simps]

text \<open>Sample data for the witnesses: three vacancies; the detail request of vacancy 9
  fails on \<open>sample_net\<close>, and \<open>skills_net\<close> answers every request.\<close>

abbreviation sample_items :: "vacancy list" where
  "sample_items \<equiv> [sample_vac (u ''7''), sample_vac (u ''9''), sample_vac (u ''8'')]"

abbreviation skills_net :: "search_response \<Rightarrow> network" where
  "skills_net r \<equiv> \<lparr>get_search = (\<lambda>_. r),
     get_detail = (\<lambda>url. if url = u ''https://api.hh.ru/vacancies/7''
       then Detail_Json (Some [Some (u ''Python''), Some (u ''SQL'')])
       else if url = u ''https://api.hh.ru/vacancies/9'' then Detail_Json (Some [Some (u ''Python'')])
       else Detail_Json None)\<rparr>"

abbreviation in_order :: scheduler where
  "in_order \<equiv> (\<lambda>n. [0..<n])"

end
