(* ===== verification/Weather.thy ===== *)
theory Weather
  imports HhApi
begin

text \<open>
  The body of \<open>cmd_weather\<close> after the city is read (handlers.py, lines 131--145). The
  handler makes one OpenWeatherMap request, whose URL holds an API key written into the
  source. On a success status it reads \<open>data["main"]["temp"]\<close> and
  \<open>data["wind"]["speed"]\<close> and sends the capitalized city with the two readings. On any
  other status it sends the fixed "incorrect city name" text without reading the body. The
  two readings are modelled by their printed forms (\<open>str\<close> of the JSON numbers). An
  object field is \<open>None\<close> when its key is missing and \<open>Some None\<close> when the inner key is
  missing, so each \<open>KeyError\<close> of the two subscripts is a branch. A success body that
  is not JSON raises \<open>ContentTypeError\<close>, and a request that does not complete raises.
\<close>

datatype owm_body =
    Owm_Json "pystr option option" "pystr option option"   \<comment> \<open>\<open>main.temp\<close>, \<open>wind.speed\<close>\<close>
  | Owm_Not_Json

datatype owm_reply =
    Owm_Failed
  | Owm_Response bool owm_body   \<comment> \<open>status ok, body\<close>

definition owm_api_key :: pystr where
  "owm_api_key = u ''ccf6a25d95d77ff985ae6ae604de8ba3''"

definition weather_url :: "pystr \<Rightarrow> pystr" where
  "weather_url city =
     u ''https://api.openweathermap.org/data/2.5/weather?q='' @ city @ u ''&appid='' @ owm_api_key @
     u ''&units=metric''"

definition msg_bad_city :: pystr where
  "msg_bad_city = [1053, 1077, 1082, 1086, 1088, 1088, 1077, 1082, 1090, 1085, 1086, 1077, 32,
     1085, 1072, 1079, 1074, 1072, 1085, 1080, 1077, 32, 1075, 1086, 1088, 1086, 1076, 1072]"
    \<comment> \<open>"Incorrect city name"\<close>

definition txt_temperature :: pystr where
  "txt_temperature = [10, 1058, 1077, 1084, 1087, 1077, 1088, 1072, 1090, 1091, 1088, 1072, 58, 32]"
    \<comment> \<open>newline, "Temperature: "\<close>

definition txt_wind :: pystr where
  "txt_wind = [32, 67, 10, 1042, 1077, 1090, 1077, 1088, 58, 32]"
    \<comment> \<open>" C", newline, "Wind: "\<close>

definition weather_message :: "pystr \<Rightarrow> pystr \<Rightarrow> pystr \<Rightarrow> pystr" where
  "weather_message city temp wind =
     py_capitalize city @ txt_temperature @ temp @ txt_wind @ wind @ u '' m/s''"

definition json_field2 :: "pystr \<Rightarrow> pystr \<Rightarrow> pystr option option \<Rightarrow> py_error + pystr" where
  "json_field2 k1 k2 v =
     (case v of None \<Rightarrow> Inl (KeyError k1) | Some None \<Rightarrow> Inl (KeyError k2) | Some (Some x) \<Rightarrow> Inr x)"

definition cmd_weather_lookup :: "(pystr \<Rightarrow> owm_reply) \<Rightarrow> pystr \<Rightarrow> reply list \<times> py_error option" where
  "cmd_weather_lookup owm city =
     (case owm (weather_url city) of
        Owm_Failed \<Rightarrow> ([], Some ClientError)
      | Owm_Response ok body \<Rightarrow>
          (if ok then
             (case body of
                Owm_Not_Json \<Rightarrow> ([], Some ContentTypeError)
              | Owm_Json main wind \<Rightarrow>
                  (case json_field2 (u ''main'') (u ''temp'') main of
                     Inl e \<Rightarrow> ([], Some e)
                   | Inr t \<Rightarrow>
                       (case json_field2 (u ''wind'') (u ''speed'') wind of
                          Inl e \<Rightarrow> ([], Some e)
                        | Inr w \<Rightarrow> ([Answer (weather_message city t w)], None))))
           else ([Answer msg_bad_city], None)))"

declare owm_api_key_def [eval_simps] weather_url_def [eval_simps] msg_bad_city_def [eval_simps]
  txt_temperature_def [eval_simps] txt_wind_def [eval_simps] weather_message_def [eval_simps]
  json_field2_def [eval_simps] cmd_weather_lookup_def [eval_simps]

text \<open>Claim C27: what a weather lookup sends. It sends one message \<open>m\<close> and finishes
  normally exactly when the service, asked at the URL for the city, answers either with a
  success status and a body holding both readings, \<open>m\<close> being the reading of the
  capitalized city with those two values, or with a failure status, \<open>m\<close> being the
  bad-city text. In every other case it raises, and then it has sent nothing.\<close>

theorem weather_lookup_outcomes:
  "(cmd_weather_lookup owm city = ([Answer m], None) \<longleftrightarrow>
      (\<exists>t w. owm (weather_url city) = Owm_Response True (Owm_Json (Some (Some t)) (Some (Some w))) \<and>
         m = weather_message city t w) \<or>
      ((\<exists>body. owm (weather_url city) = Owm_Response False body) \<and> m = msg_bad_city)) \<and>
   (fst (cmd_weather_lookup owm city) = [] \<longleftrightarrow> snd (cmd_weather_lookup owm city) \<noteq> None)"
  by (cases "owm (weather_url city)")
     (auto simp: cmd_weather_lookup_def json_field2_def
       split: owm_body.splits option.splits sum.splits if_splits)

end
