(* ===== verification/Conversation.thy ===== *)
theory Conversation
  imports Handlers Weather
begin

text \<open>
  The conversation layer: the router of handlers.py and aiogram's per-user FSM. The router
  tries its handlers in registration order (lines 37--208) and runs the first one whose
  filters match. \<open>Command('job')\<close> and the other command filters match in every state.
  A state filter such as \<open>Job.keyword_1\<close> matches every message while the user is in
  that state. The FSM context of a user holds the current state and a data dict.
  \<open>set_state\<close> changes only the state, and \<open>clear\<close> resets both. The keyword
  handlers store the text with \<open>update_data\<close>, read it back with \<open>get_data\<close> and
  clear the context before any request is made. \<open>command_of\<close> is aiogram's
  \<open>Command\<close> filter. It takes the first whitespace-separated word, which must start
  with \<open>/\<close>, and splits off an \<open>@mention\<close>. A mention that is present must name the
  bot, compared in lower case. The bot is a map from a (chat, user) key to that user's
  context, and a message from one key runs one handler on that key's context.
\<close>

datatype fsm_state = Job_keyword_1 | Job_keyword_2 | Weather_city

record fsm_context =
  ctx_state :: "fsm_state option"
  ctx_data :: "pystr \<Rightarrow> pystr option"

definition empty_context :: fsm_context where
  "empty_context = \<lparr>ctx_state = None, ctx_data = Map.empty\<rparr>"

type_synonym user_key = "nat \<times> nat"   \<comment> \<open>(chat id, user id)\<close>

type_synonym bot = "user_key \<Rightarrow> fsm_context"

record env =
  env_hh :: network
  env_sched :: scheduler
  env_owm :: "pystr \<Rightarrow> owm_reply"
  env_me :: pystr                       \<comment> \<open>the bot's username\<close>

datatype handler =
    H_start | H_enter_keyword_1 | H_job | H_enter_city | H_weather
  | H_enter_keyword_2 | H_enter_count

subsection \<open>aiogram's \<open>Command\<close> filter\<close>

text \<open>Python's \<open>str.split()\<close> separators.\<close>

definition py_isspace :: "nat \<Rightarrow> bool" where
  "py_isspace c \<longleftrightarrow> (9 \<le> c \<and> c \<le> 13) \<or> (28 \<le> c \<and> c \<le> 32) \<or> c = 133 \<or> c = 160 \<or>
     c = 5760 \<or> (8192 \<le> c \<and> c \<le> 8202) \<or> c = 8232 \<or> c = 8233 \<or> c = 8239 \<or> c = 8287 \<or> c = 12288"

definition first_word :: "pystr \<Rightarrow> pystr" where
  "first_word t = takeWhile (\<lambda>c. \<not> py_isspace c) (dropWhile py_isspace t)"

definition command_of :: "pystr \<Rightarrow> pystr \<Rightarrow> pystr option" where
  "command_of me t =
     (let w = first_word t
      in if w \<noteq> [] \<and> hd w = 47 then
           (let cmd = tl w; name = takeWhile (\<lambda>c. c \<noteq> 64) cmd;
                mention = drop 1 (dropWhile (\<lambda>c. c \<noteq> 64) cmd)
            in if mention = [] \<or> py_lower mention = py_lower me then Some name else None)
         else None)"

subsection \<open>The router\<close>

text \<open>Lines 37, 45, 51, 119, 125, 154 and 160: the filters in registration order.\<close>

definition route :: "pystr \<Rightarrow> fsm_state option \<Rightarrow> pystr \<Rightarrow> handler option" where
  "route me st t =
     (let c = command_of me t
      in if c = Some (u ''start'') then Some H_start
         else if c = Some (u ''job'') then Some H_enter_keyword_1
         else if st = Some Job_keyword_1 then Some H_job
         else if c = Some (u ''weather'') then Some H_enter_city
         else if st = Some Weather_city then Some H_weather
         else if c = Some (u ''key_skills'') then Some H_enter_keyword_2
         else if st = Some Job_keyword_2 then Some H_enter_count
         else None)"

subsection \<open>The handlers' texts and their effect on the context\<close>

definition greetings :: "pystr list" where
  "greetings =
    [[1055, 1088, 1080, 1074, 1077, 1090, 1080, 1082, 33],
     [1045, 1089, 1083, 1080, 32, 1074, 1099, 32, 1087, 1086, 1087, 1072, 1083, 1080,
      32, 1089, 1102, 1076, 1072, 44, 32, 1079, 1085, 1072, 1095, 1080, 1090, 32,
      1074, 1099, 32, 1086, 1073, 1086, 1075, 1085, 1072, 1083, 1080, 32, 57, 57, 44,
      57, 57, 37, 32, 1095, 1077, 1083, 1086, 1074, 1077, 1082, 32, 1085, 1072, 32,
      1101, 1090, 1086, 1081, 32, 1087, 1083, 1072, 1085, 1077, 1090, 1077, 32, 1080,
      32, 1074, 1093, 1086, 1076, 1080, 1090, 1077, 32, 1074, 32, 1095, 1080, 1089,
      1083, 1086, 32, 50, 45, 1093, 32, 1095, 1077, 1083, 1086, 1074, 1077, 1082, 44,
      32, 1091, 32, 1082, 1086, 1090, 1086, 1088, 1099, 1093, 32, 1077, 1089, 1090,
      1100, 32, 1082, 32, 1085, 1072, 1084, 32, 1076, 1086, 1089, 1090, 1091, 1087, 41],
     [1042, 1099, 1073, 1077, 1088, 1080, 1090, 1077, 32, 1082, 1086, 1084, 1072,
      1085, 1076, 1091, 32, 1080, 1079, 32, 1089, 1087, 1080, 1089, 1082, 1072, 32,
      1085, 1080, 1078, 1077]]"
    \<comment> \<open>lines 39--42: a greeting, a joke about access, "Choose a command from the list below"\<close>

definition prompt_keyword :: pystr where
  "prompt_keyword = [1042, 1074, 1077, 1076, 1080, 1090, 1077, 32, 1085, 1072, 1079, 1074, 1072,
     1085, 1080, 1077, 32, 1087, 1088, 1086, 1092, 1077, 1089, 1089, 1080, 1080, 32,
     1080, 1083, 1080, 32, 1082, 1083, 1102, 1095, 1077, 1074, 1086, 1077, 32, 1089,
     1083, 1086, 1074, 1086]"
    \<comment> \<open>"Enter a profession or a keyword"\<close>

definition prompt_city :: pystr where
  "prompt_city = [1042, 1074, 1077, 1076, 1080, 1090, 1077, 32, 1085, 1072, 1079, 1074, 1072,
     1085, 1080, 1077, 32, 1075, 1086, 1088, 1086, 1076, 1072]"
    \<comment> \<open>"Enter a city name"\<close>

text \<open>
  The three keyword handlers share one shape (lines 53--55, 127--129, 162--164): store the
  text under a key, read the key back, clear the context, then run the rest of the handler
  on the value read.
\<close>

definition take_keyword ::
  "pystr \<Rightarrow> fsm_context \<Rightarrow> pystr \<Rightarrow> (pystr \<Rightarrow> reply list \<times> py_error option) \<Rightarrow>
     fsm_context \<times> reply list \<times> py_error option" where
  "take_keyword key ctx t rest =
     (let ctx1 = ctx\<lparr>ctx_data := (ctx_data ctx)(key \<mapsto> t)\<rparr>
      in case ctx_data ctx1 key of
           None \<Rightarrow> (ctx1, [], Some (KeyError key))
         | Some v \<Rightarrow> (empty_context, rest v))"

definition run_handler ::
  "env \<Rightarrow> handler \<Rightarrow> fsm_context \<Rightarrow> pystr \<Rightarrow> fsm_context \<times> reply list \<times> py_error option" where
  "run_handler e h ctx t =
     (case h of
        H_start \<Rightarrow> (ctx, map Answer greetings, None)
      | H_enter_keyword_1 \<Rightarrow> (ctx\<lparr>ctx_state := Some Job_keyword_1\<rparr>, [Answer prompt_keyword], None)
      | H_job \<Rightarrow> take_keyword (u ''keyword_1'') ctx t (cmd_job_search (env_hh e) (env_sched e))
      | H_enter_city \<Rightarrow> (ctx\<lparr>ctx_state := Some Weather_city\<rparr>, [Answer prompt_city], None)
      | H_weather \<Rightarrow> take_keyword (u ''city'') ctx t (cmd_weather_lookup (env_owm e))
      | H_enter_keyword_2 \<Rightarrow> (ctx\<lparr>ctx_state := Some Job_keyword_2\<rparr>, [Answer prompt_keyword], None)
      | H_enter_count \<Rightarrow> take_keyword (u ''keyword_2'') ctx t (cmd_key_skills_search (env_hh e) (env_sched e)))"

text \<open>One incoming message from key \<open>k\<close>; a message no handler matches is ignored.\<close>

definition dispatch :: "env \<Rightarrow> bot \<Rightarrow> user_key \<Rightarrow> pystr \<Rightarrow> bot \<times> reply list \<times> py_error option" where
  "dispatch e b k t =
     (case route (env_me e) (ctx_state (b k)) t of
        None \<Rightarrow> (b, [], None)
      | Some h \<Rightarrow> (let (ctx', out) = run_handler e h (b k) t in (b(k := ctx'), out)))"

text \<open>A sequence of messages, processed one at a time; the replies are concatenated.\<close>

fun dispatch_all :: "env \<Rightarrow> bot \<Rightarrow> (user_key \<times> pystr) list \<Rightarrow> bot \<times> reply list" where
  "dispatch_all e b [] = (b, [])"
| "dispatch_all e b ((k, t) # ms) =
     (let (b1, rs, _) = dispatch e b k t; (b2, rs') = dispatch_all e b1 ms in (b2, rs @ rs'))"

text \<open>The bot states reachable from the start, where every context is empty.\<close>

inductive reachable :: "env \<Rightarrow> bot \<Rightarrow> bool" for e :: env where
  start: "reachable e (\<lambda>_. empty_context)"
| step: "reachable e b \<Longrightarrow> dispatch e b k t = (b', out) \<Longrightarrow> reachable e b'"

declare empty_context_def [eval_simps] py_isspace_def [eval_simps] first_word_def [eval_simps]
  command_of_def [eval_simps] route_def [eval_simps] greetings_def [eval_simps]
  prompt_keyword_def [eval_simps] prompt_city_def [eval_simps] take_keyword_def [eval_simps]
  run_handler_def [eval_simps] dispatch_def [eval_simps] dispatch_all.simps [eval_simps]

text \<open>A sample environment for the witnesses: the search of \<open>skills_net\<close> finds the three
  sample vacancies, the detail requests complete in order, and the weather service fails.\<close>

abbreviation sample_env :: env where
  "sample_env \<equiv> \<lparr>env_hh = skills_net \<lparr>search_ok = True, search_body = Items sample_items\<rparr>,
     env_sched = in_order, env_owm = (\<lambda>_. Owm_Failed), env_me = u ''hh_bot''\<rparr>"

subsection \<open>The router and the handlers' effect on the contexts\<close>

lemma route_start: "route me st (u ''/start'') = Some H_start"
  by (simp add: route_def command_of_def first_word_def py_isspace_def eval_simps)

lemma route_job: "route me st (u ''/job'') = Some H_enter_keyword_1"
  by (simp add: route_def command_of_def first_word_def py_isspace_def eval_simps)

lemma route_keyword_1:
  "command_of me t \<noteq> Some (u ''start'') \<Longrightarrow> command_of me t \<noteq> Some (u ''job'') \<Longrightarrow>
     route me (Some Job_keyword_1) t = Some H_job"
  by (simp add: route_def Let_def)

lemma dispatch_job:
  "dispatch e b k (u ''/job'') =
     (b(k := (b k)\<lparr>ctx_state := Some Job_keyword_1\<rparr>), [Answer prompt_keyword], None)"
  unfolding dispatch_def route_job by (simp add: run_handler_def)

lemma route_key_skills_idle: "route me None (u ''/key_skills'') = Some H_enter_keyword_2"
  by (simp add: route_def command_of_def first_word_def py_isspace_def eval_simps)

lemma dispatch_key_skills_idle:
  "ctx_state (b k) = None \<Longrightarrow>
     dispatch e b k (u ''/key_skills'') =
       (b(k := (b k)\<lparr>ctx_state := Some Job_keyword_2\<rparr>), [Answer prompt_keyword], None)"
  unfolding dispatch_def by (simp add: route_key_skills_idle run_handler_def)

lemma route_plain_text:
  "command_of me t = None \<Longrightarrow>
     route me st t = (case st of None \<Rightarrow> None | Some Job_keyword_1 \<Rightarrow> Some H_job
       | Some Weather_city \<Rightarrow> Some H_weather | Some Job_keyword_2 \<Rightarrow> Some H_enter_count)"
  by (simp add: route_def split: option.split fsm_state.split)

text \<open>The key just stored is always found again, so the \<open>KeyError\<close> branch of the keyword
  handlers is dead: they always clear the context and run on the message text.\<close>

lemma take_keyword_eq: "take_keyword key ctx t rest = (empty_context, rest t)"
  by (simp add: take_keyword_def)

lemma run_handler_data:
  "ctx_data (fst (run_handler e h ctx t)) = ctx_data ctx \<or> fst (run_handler e h ctx t) = empty_context"
  by (cases h) (simp_all add: run_handler_def take_keyword_eq)

lemma dispatch_fst:
  "fst (dispatch e b k t) = b(k := (case route (env_me e) (ctx_state (b k)) t of
     None \<Rightarrow> b k | Some h \<Rightarrow> fst (run_handler e h (b k) t)))"
  by (simp add: dispatch_def split: option.split prod.split)

lemma dispatch_other_keys:
  assumes "dispatch e b k t = (b', out)"
  shows "\<exists>ctx. b' = b(k := ctx) \<and> (ctx_data ctx = ctx_data (b k) \<or> ctx = empty_context)"
proof -
  have b': "b' = fst (dispatch e b k t)" using assms by simp
  show ?thesis
  proof (cases "route (env_me e) (ctx_state (b k)) t")
    case None
    then have "b' = b(k := b k)" unfolding b' dispatch_fst by simp
    then show ?thesis by blast
  next
    case (Some h)
    then have "b' = b(k := fst (run_handler e h (b k) t))" unfolding b' dispatch_fst by simp
    then show ?thesis using run_handler_data [of e h "b k" t] by blast
  qed
qed

text \<open>Claim C19: while a user is asked for a job keyword, every message except /start and /job
  is taken as the keyword, including the other commands such as /weather and /key_skills.\<close>

theorem route_keyword_1_takes_all:
  "route me (Some Job_keyword_1) t = Some H_job \<longleftrightarrow>
     command_of me t \<noteq> Some (u ''start'') \<and> command_of me t \<noteq> Some (u ''job'')"
  by (simp add: route_def Let_def)

theorem route_keyword_1_takes_all_witness:
  "command_of (u ''hh_bot'') (u ''/weather'') \<noteq> Some (u ''start'') \<and>
   command_of (u ''hh_bot'') (u ''/weather'') \<noteq> Some (u ''job'') \<and>
   route (u ''hh_bot'') (Some Job_keyword_1) (u ''/weather'') = Some H_job"
proof -
  have h: "command_of (u ''hh_bot'') (u ''/weather'') \<noteq> Some (u ''start'') \<and>
     command_of (u ''hh_bot'') (u ''/weather'') \<noteq> Some (u ''job'')"
    by (simp add: command_of_def first_word_def py_isspace_def eval_simps)
  show ?thesis using h route_keyword_1_takes_all [THEN iffD2, OF h] by blast
qed

text \<open>Claim C20: in every reachable state of the bot the data dict of every user is empty: the
  keyword handlers store the text and clear the context in the same step.\<close>

theorem reachable_data_empty:
  "reachable e b \<Longrightarrow> ctx_data (b k) = Map.empty"
proof (induction rule: reachable.induct)
  case start
  then show ?case by (simp add: empty_context_def)
next
  case (step b k' t b' out)
  obtain ctx where "b' = b(k' := ctx)" and "ctx_data ctx = ctx_data (b k') \<or> ctx = empty_context"
    using dispatch_other_keys [OF step.hyps(2)] by blast
  with step.IH show ?case
    by (cases "k = k'") (auto simp: empty_context_def)
qed

theorem reachable_data_empty_witness:
  "reachable sample_env (fst (dispatch sample_env (\<lambda>_. empty_context) (1, 1) (u ''/job''))) \<and>
   ctx_data (fst (dispatch sample_env (\<lambda>_. empty_context) (1, 1) (u ''/job'')) (1, 1)) = Map.empty"
proof -
  have r: "reachable sample_env (fst (dispatch sample_env (\<lambda>_. empty_context) (1, 1) (u ''/job'')))"
    by (rule reachable.step [OF reachable.start]) (rule prod.collapse [symmetric])
  show ?thesis using r reachable_data_empty [OF r] by blast
qed

text \<open>Claim C22: /start answers with the three greeting messages and changes no context, so a
  pending prompt for a keyword or a city is still pending after it.\<close>

theorem start_keeps_state:
  "dispatch e b k (u ''/start'') = (b, map Answer greetings, None)"
  unfolding dispatch_def route_start by (simp add: run_handler_def)

text \<open>Claim C21: /job followed by any text that is not /start or /job runs the job search on
  that text, sends the prompt and then the search's replies, and leaves the user's context
  empty.\<close>

theorem job_two_steps:
  assumes "command_of (env_me e) t \<noteq> Some (u ''start'')"
    and "command_of (env_me e) t \<noteq> Some (u ''job'')"
  shows "dispatch_all e b [(k, u ''/job''), (k, t)] =
     (b(k := empty_context), Answer prompt_keyword # fst (cmd_job_search (env_hh e) (env_sched e) t))"
proof -
  let ?b1 = "b(k := (b k)\<lparr>ctx_state := Some Job_keyword_1\<rparr>)"
  have "dispatch e ?b1 k t = (?b1(k := empty_context), cmd_job_search (env_hh e) (env_sched e) t)"
    using route_keyword_1 [OF assms] by (simp add: dispatch_def run_handler_def take_keyword_eq)
  then show ?thesis
    by (simp add: dispatch_job split: prod.split)
qed

theorem job_two_steps_witness:
  "command_of (u ''hh_bot'') (u ''python'') \<noteq> Some (u ''start'') \<and>
   command_of (u ''hh_bot'') (u ''python'') \<noteq> Some (u ''job'') \<and>
   dispatch_all sample_env (\<lambda>_. empty_context) [((1, 1), u ''/job''), ((1, 1), u ''python'')] =
     ((\<lambda>_. empty_context)((1, 1) := empty_context),
      Answer prompt_keyword # fst (cmd_job_search (env_hh sample_env) (env_sched sample_env) (u ''python'')))"
proof -
  have h1: "command_of (env_me sample_env) (u ''python'') \<noteq> Some (u ''start'')"
    and h2: "command_of (env_me sample_env) (u ''python'') \<noteq> Some (u ''job'')"
    by (simp_all add: command_of_def first_word_def py_isspace_def eval_simps)
  show ?thesis using h1 h2 job_two_steps [OF h1 h2, of "\<lambda>_. empty_context" "(1, 1)"] by simp
qed

text \<open>Claim C23: while a user is asked for a city, every message except /start, /job and
  /weather is taken as the city, /key_skills included; the routing differs from the keyword
  state only because /weather is registered before the city handler.\<close>

theorem route_city_takes_most:
  "route me (Some Weather_city) t = Some H_weather \<longleftrightarrow>
     command_of me t \<noteq> Some (u ''start'') \<and> command_of me t \<noteq> Some (u ''job'') \<and>
     command_of me t \<noteq> Some (u ''weather'')"
  by (simp add: route_def Let_def)

theorem route_city_takes_most_witness:
  "route (u ''hh_bot'') (Some Weather_city) (u ''/key_skills'') = Some H_weather \<and>
   route (u ''hh_bot'') (Some Weather_city) (u ''/weather'') = Some H_enter_city"
proof -
  have h: "command_of (u ''hh_bot'') (u ''/key_skills'') \<noteq> Some (u ''start'') \<and>
     command_of (u ''hh_bot'') (u ''/key_skills'') \<noteq> Some (u ''job'') \<and>
     command_of (u ''hh_bot'') (u ''/key_skills'') \<noteq> Some (u ''weather'')"
    by (simp add: command_of_def first_word_def py_isspace_def eval_simps)
  have w: "route (u ''hh_bot'') (Some Weather_city) (u ''/weather'') = Some H_enter_city"
    by (simp add: route_def command_of_def first_word_def py_isspace_def eval_simps)
  show ?thesis using route_city_takes_most [THEN iffD2, OF h] w by blast
qed

end
