(* ===== verification/Bootstrap.thy ===== *)
theory Bootstrap
  imports Conversation
begin

text \<open>
  The entry point of \<open>src/HeraldBot/HeraldBot.py\<close>. \<open>main\<close> (lines 9--16):
  \<open>load_dotenv()\<close> adds the variables of the \<open>.env\<close> file to the process environment
  without overriding those already set. \<open>os.getenv('TG_TOKEN')\<close> reads the token, and
  \<open>Bot(token=...)\<close> validates it with aiogram's \<open>validate_token\<close>, raising
  \<open>TokenValidationError\<close> when the token is missing or malformed. \<open>Dispatcher()\<close>
  starts with an empty memory storage, so every user's context is empty.
  \<open>start_polling\<close> first asks the Bot API who the bot is (\<open>bot.me()\<close>). A refused
  token or a network failure there escapes \<open>main\<close>. The username it returns is the one
  the \<open>Command\<close> filter compares mentions with. Then it feeds the incoming updates to
  the router. Polling is modelled on a finite list of updates, processed one after the
  other. This is faithful to the contexts because every handler finishes its state changes
  before its first network request.

  The script block (lines 19--23) runs \<open>main\<close> and catches only \<open>KeyboardInterrupt\<close>,
  printing \<open>Exit\<close>. \<open>start_polling\<close> installs its own handlers for SIGINT and SIGTERM
  where the event loop supports them (POSIX). There Ctrl-C stops polling, \<open>main\<close> returns
  normally and nothing is printed. Where it does not (Windows), Ctrl-C raises
  \<open>KeyboardInterrupt\<close> out of \<open>asyncio.run\<close>, and the script prints \<open>Exit\<close>.
\<close>

text \<open>\<open>load_dotenv()\<close> with \<open>override=False\<close>: the process environment wins.\<close>

definition load_environ :: "(pystr \<rightharpoonup> pystr) \<Rightarrow> (pystr \<rightharpoonup> pystr) \<Rightarrow> (pystr \<rightharpoonup> pystr)" where
  "load_environ os_env dotenv = dotenv ++ os_env"

text \<open>aiogram's \<open>validate_token\<close>: no whitespace, and \<open>token.partition(':')\<close> gives a
  separator, a left part for which \<open>isdigit()\<close> holds (ASCII digits here; Python also
  accepts other Unicode digits) and a non-empty right part.\<close>

definition valid_token :: "pystr \<Rightarrow> bool" where
  "valid_token token \<longleftrightarrow>
     \<not> list_ex py_isspace token \<and>
     (let left = takeWhile (\<lambda>c. c \<noteq> 58) token; rest = dropWhile (\<lambda>c. c \<noteq> 58) token
      in rest \<noteq> [] \<and> left \<noteq> [] \<and> list_all is_digit left \<and> tl rest \<noteq> [])"

text \<open>\<open>get_me token\<close> is the Bot API's answer to \<open>getMe\<close>: the bot's username, or the
  error \<open>bot.me()\<close> raises. The environment's \<open>env_me\<close> is set from it.\<close>

definition heraldbot_main ::
  "(pystr \<rightharpoonup> pystr) \<Rightarrow> (pystr \<rightharpoonup> pystr) \<Rightarrow> (pystr \<Rightarrow> py_error + pystr) \<Rightarrow> env \<Rightarrow>
     (user_key \<times> pystr) list \<Rightarrow> py_error + bot \<times> reply list" where
  "heraldbot_main os_env dotenv get_me e updates =
     (case load_environ os_env dotenv (u ''TG_TOKEN'') of
        None \<Rightarrow> Inl TokenValidationError
      | Some token \<Rightarrow>
          if \<not> valid_token token then Inl TokenValidationError
          else (case get_me token of
                  Inl err \<Rightarrow> Inl err
                | Inr username \<Rightarrow>
                    Inr (dispatch_all (e\<lparr>env_me := username\<rparr>) (\<lambda>_. empty_context) updates)))"

datatype platform = Posix | Windows

text \<open>Lines 19--23, the run ended by Ctrl-C after the given updates. The result records the
  replies sent and the lines printed, or the exception that escapes.\<close>

datatype script_result = Script_exit "reply list" "pystr list" | Script_crash py_error

definition heraldbot_script ::
  "platform \<Rightarrow> (pystr \<rightharpoonup> pystr) \<Rightarrow> (pystr \<rightharpoonup> pystr) \<Rightarrow> (pystr \<Rightarrow> py_error + pystr) \<Rightarrow> env \<Rightarrow>
     (user_key \<times> pystr) list \<Rightarrow> script_result" where
  "heraldbot_script plat os_env dotenv get_me e updates =
     (case heraldbot_main os_env dotenv get_me e updates of
        Inl err \<Rightarrow> Script_crash err
      | Inr (b, rs) \<Rightarrow> Script_exit rs (if plat = Windows then [u ''Exit''] else []))"

declare heraldbot_script_def [eval_simps]

declare load_environ_def [eval_simps] valid_token_def [eval_simps] heraldbot_main_def [eval_simps]

end
