(* ===== verification/ConversationSpec.thy ===== *)
theory ConversationSpec
  imports Conversation
begin

text \<open>
  The conversation as the specification describes it: a small state machine per
  conversation with the states \<open>Idle\<close> and \<open>AwaitingKeyword\<close>. A command of a flow sends
  its prompt and waits, and the next message is consumed as the flow's input and returns
  to \<open>Idle\<close>. The machine is \<open>spec_step\<close>, and its actions are given their meaning by
  \<open>perform\<close>. \<open>abs_state\<close> maps aiogram's FSM state to the machine's, and \<open>classify\<close>
  reads a message as a user event. The specification does not say what a flow command does
  while another flow is waiting. \<open>spec_step\<close> takes the natural reading (the new flow
  starts), and the refinement theorem excludes that case; the code's behaviour there is
  stated in \<open>Conversation\<close>.
\<close>

datatype flow = Job_flow | Skills_flow | City_flow

datatype conv_state = Idle | Awaiting flow

datatype conv_event = Ask flow | Greet_cmd | Reply pystr

datatype conv_action = Prompt flow | Run flow pystr | Greet | Nothing

fun spec_step :: "conv_state \<Rightarrow> conv_event \<Rightarrow> conv_state \<times> conv_action" where
  "spec_step s Greet_cmd = (s, Greet)"
| "spec_step s (Ask f) = (Awaiting f, Prompt f)"
| "spec_step Idle (Reply t) = (Idle, Nothing)"
| "spec_step (Awaiting f) (Reply t) = (Idle, Run f t)"

primrec abs_state :: "fsm_state option \<Rightarrow> conv_state" where
  "abs_state None = Idle"
| "abs_state (Some st) =
     (case st of Job_keyword_1 \<Rightarrow> Awaiting Job_flow | Job_keyword_2 \<Rightarrow> Awaiting Skills_flow
      | Weather_city \<Rightarrow> Awaiting City_flow)"

definition classify :: "pystr \<Rightarrow> pystr \<Rightarrow> conv_event" where
  "classify me t =
     (case command_of me t of
        None \<Rightarrow> Reply t
      | Some c \<Rightarrow>
          if c = u ''start'' then Greet_cmd
          else if c = u ''job'' then Ask Job_flow
          else if c = u ''key_skills'' then Ask Skills_flow
          else if c = u ''weather'' then Ask City_flow
          else Reply t)"

fun perform :: "env \<Rightarrow> conv_action \<Rightarrow> reply list \<times> py_error option" where
  "perform e (Prompt City_flow) = ([Answer prompt_city], None)"
| "perform e (Prompt f) = ([Answer prompt_keyword], None)"
| "perform e (Run Job_flow t) = cmd_job_search (env_hh e) (env_sched e) t"
| "perform e (Run Skills_flow t) = cmd_key_skills_search (env_hh e) (env_sched e) t"
| "perform e (Run City_flow t) = cmd_weather_lookup (env_owm e) t"
| "perform e Greet = (map Answer greetings, None)"
| "perform e Nothing = ([], None)"

definition is_ask :: "conv_event \<Rightarrow> bool" where
  "is_ask ev \<longleftrightarrow> (case ev of Ask f \<Rightarrow> True | _ \<Rightarrow> False)"

declare classify_def [eval_simps] is_ask_def [eval_simps]

subsection \<open>Refinement\<close>

lemma dispatch_route:
  "dispatch e b k t =
     (case route (env_me e) (ctx_state (b k)) t of
        None \<Rightarrow> (b, [], None)
      | Some h \<Rightarrow> (b(k := fst (run_handler e h (b k) t)), snd (run_handler e h (b k) t)))"
  by (simp add: dispatch_def split: option.split prod.split)

lemma route_by_event:
  "route me st t =
     (case classify me t of
        Greet_cmd \<Rightarrow> Some H_start
      | Ask Job_flow \<Rightarrow> Some H_enter_keyword_1
      | Ask City_flow \<Rightarrow> (if st = Some Job_keyword_1 then Some H_job else Some H_enter_city)
      | Ask Skills_flow \<Rightarrow>
          (if st = Some Job_keyword_1 then Some H_job
           else if st = Some Weather_city then Some H_weather else Some H_enter_keyword_2)
      | Reply _ \<Rightarrow>
          (case st of None \<Rightarrow> None | Some Job_keyword_1 \<Rightarrow> Some H_job
           | Some Weather_city \<Rightarrow> Some H_weather | Some Job_keyword_2 \<Rightarrow> Some H_enter_count))"
  by (simp add: route_def classify_def Let_def u_Cons split: option.split fsm_state.split)

text \<open>Claim C25: the router and the FSM refine the specification's conversation machine on
  every message it covers: when no flow is waiting, or the message is not a flow command, the
  user's state after the message is the machine's next state, and the replies and the
  exception are those of the machine's action (the prompt, the flow run on the message, the
  greeting, or nothing).\<close>

theorem dispatch_refines_spec:
  assumes "ctx_state (b k) = None \<or> \<not> is_ask (classify (env_me e) t)"
  shows "abs_state (ctx_state (fst (dispatch e b k t) k)) =
           fst (spec_step (abs_state (ctx_state (b k))) (classify (env_me e) t)) \<and>
         snd (dispatch e b k t) =
           perform e (snd (spec_step (abs_state (ctx_state (b k))) (classify (env_me e) t)))"
proof (cases "classify (env_me e) t")
  case (Ask f)
  then have "ctx_state (b k) = None"
    using assms by (simp add: is_ask_def)
  with Ask show ?thesis
    by (cases f) (simp_all add: dispatch_route route_by_event run_handler_def)
next
  case Greet_cmd
  then show ?thesis
    by (simp add: dispatch_route route_by_event run_handler_def)
next
  case (Reply x)
  then have t: "x = t"
    by (simp add: classify_def split: option.splits if_splits)
  show ?thesis
  proof (cases "ctx_state (b k)")
    case None
    with Reply show ?thesis
      by (simp add: dispatch_route route_by_event)
  next
    case (Some st)
    with Reply t show ?thesis
      by (cases st) (simp_all add: dispatch_route route_by_event run_handler_def take_keyword_eq
          empty_context_def)
  qed
qed

theorem dispatch_refines_spec_witness:
  "(ctx_state ((\<lambda>_. empty_context) (1, 1)) = None \<or>
    \<not> is_ask (classify (env_me sample_env) (u ''/job''))) \<and>
   abs_state (ctx_state (fst (dispatch sample_env (\<lambda>_. empty_context) (1, 1) (u ''/job'')) (1, 1))) =
     Awaiting Job_flow \<and>
   snd (dispatch sample_env (\<lambda>_. empty_context) (1, 1) (u ''/job'')) = ([Answer prompt_keyword], None)"
proof -
  have h: "ctx_state ((\<lambda>_. empty_context) (1, 1)) = None \<or>
      \<not> is_ask (classify (env_me sample_env) (u ''/job''))"
    by (simp add: empty_context_def)
  have c: "classify (u ''hh_bot'') (u ''/job'') = Ask Job_flow"
    by (simp add: classify_def command_of_def first_word_def py_isspace_def eval_simps)
  show ?thesis
    using h dispatch_refines_spec [where e = sample_env and b = "\<lambda>_. empty_context" and k = "(1, 1)"
        and t = "u ''/job''", OF h]
    by (simp add: c empty_context_def)
qed

end
