(* ===== verification/Chart.thy ===== *)
theory Chart
  imports Prelude
begin

text \<open>
  The chart output of \<open>cmd_enter_count\<close> (handlers.py, lines 203--208) and the file it
  goes through. \<open>plt.savefig('img/diagram.png')\<close> (line 204) truncates and rewrites one
  fixed file shared by every request. It is synchronous, so it is one step of the event loop.
  \<open>message.answer_photo(FSInputFile('img/diagram.png'))\<close> (lines 207--208) reads that
  file during the upload. aiogram reads it in chunks on a worker thread, across awaits, so
  the read is an interval: it begins, other steps may run, and it ends. A save that falls
  inside another request's read interval may tear the photo that request sends. aiogram runs
  the updates as concurrent tasks, so the steps of overlapping requests interleave. The
  requests are numbered, and \<open>Photo q\<close> is the complete chart saved by request \<open>q\<close>,
  that is the plot of \<open>rank_skills\<close> of \<open>q\<close>'s skill lists.
\<close>

datatype chart_event = Save_chart nat | Read_begin nat | Read_end nat

primrec ev_pid :: "chart_event \<Rightarrow> nat" where
  "ev_pid (Save_chart p) = p"
| "ev_pid (Read_begin p) = p"
| "ev_pid (Read_end p) = p"

text \<open>The state of an upload's read: the file it started on, or torn by a later save.\<close>

datatype read_state = Reading "nat option" | Torn_read

datatype photo = Photo nat | Torn_photo | No_file

text \<open>The file (the request whose chart it holds, \<open>None\<close> before any save) and the open
  reads of the requests.\<close>

type_synonym chart_state = "nat option \<times> (nat \<Rightarrow> read_state option)"

definition tear :: "(nat \<Rightarrow> read_state option) \<Rightarrow> (nat \<Rightarrow> read_state option)" where
  "tear rd = (\<lambda>q. case rd q of Some (Reading _) \<Rightarrow> Some Torn_read | x \<Rightarrow> x)"

primrec ev_step :: "chart_state \<Rightarrow> chart_event \<Rightarrow> chart_state" where
  "ev_step s (Save_chart p) = (Some p, tear (snd s))"
| "ev_step s (Read_begin p) = (fst s, (snd s)(p \<mapsto> Reading (fst s)))"
| "ev_step s (Read_end p) = s"

definition photo_of :: "read_state option \<Rightarrow> photo" where
  "photo_of r = (case r of Some (Reading (Some q)) \<Rightarrow> Photo q | Some Torn_read \<Rightarrow> Torn_photo
     | _ \<Rightarrow> No_file)"

text \<open>The photos sent, each with the number of the request that sends it.\<close>

fun chart_run :: "chart_state \<Rightarrow> chart_event list \<Rightarrow> (nat \<times> photo) list" where
  "chart_run s [] = []"
| "chart_run s (Save_chart p # evs) = chart_run (ev_step s (Save_chart p)) evs"
| "chart_run s (Read_begin p # evs) = chart_run (ev_step s (Read_begin p)) evs"
| "chart_run s (Read_end p # evs) = (p, photo_of (snd s p)) # chart_run s evs"

definition chart_start :: chart_state where
  "chart_start = (None, \<lambda>_. None)"

text \<open>An interleaving of requests: every request that appears saves its chart, then reads
  the file for the upload, once each.\<close>

definition chart_trace :: "chart_event list \<Rightarrow> bool" where
  "chart_trace evs \<longleftrightarrow>
     list_all (\<lambda>p. filter (\<lambda>e. ev_pid e = p) evs = [Save_chart p, Read_begin p, Read_end p])
       (map ev_pid evs)"

declare tear_def [eval_simps] photo_of_def [eval_simps] chart_start_def [eval_simps]
  chart_trace_def [eval_simps]

subsection \<open>The file and the reads along a trace\<close>

abbreviation no_save :: "chart_event list \<Rightarrow> bool" where
  "no_save es \<equiv> (\<forall>q. Save_chart q \<notin> set es)"

lemma chart_run_append:
  "chart_run s (xs @ ys) = chart_run s xs @ chart_run (foldl ev_step s xs) ys"
  by (induction s xs rule: chart_run.induct) simp_all

lemma file_no_save:
  "no_save es \<Longrightarrow> fst (foldl ev_step s es) = fst s"
proof (induction es arbitrary: s)
  case (Cons e es)
  then show ?case by (cases e) auto
qed simp

lemma file_last_save:
  "\<not> no_save es \<Longrightarrow> \<exists>q. Save_chart q \<in> set es \<and> fst (foldl ev_step s es) = Some q"
proof (induction es arbitrary: s)
  case (Cons e es)
  then show ?case
    by (cases e; cases "no_save es") (auto simp: file_no_save)
qed simp

lemma read_no_save:
  "no_save es \<Longrightarrow> Read_begin p \<notin> set es \<Longrightarrow> snd (foldl ev_step s es) p = snd s p"
proof (induction es arbitrary: s)
  case (Cons e es)
  then show ?case by (cases e) auto
qed simp

lemma read_torn_stays:
  "Read_begin p \<notin> set es \<Longrightarrow> snd s p = Some Torn_read \<Longrightarrow> snd (foldl ev_step s es) p = Some Torn_read"
proof (induction es arbitrary: s)
  case (Cons e es)
  then show ?case by (cases e) (auto simp: tear_def)
qed simp

lemma read_torn_by_save:
  "\<not> no_save es \<Longrightarrow> Read_begin p \<notin> set es \<Longrightarrow> snd s p = Some (Reading x) \<Longrightarrow>
     snd (foldl ev_step s es) p = Some Torn_read"
proof (induction es arbitrary: s)
  case (Cons e es)
  show ?case
  proof (cases e)
    case (Save_chart q)
    then show ?thesis
      using Cons.prems read_torn_stays [of p es "ev_step s e"] by (simp add: tear_def)
  next
    case (Read_begin q)
    with Cons show ?thesis by auto
  next
    case (Read_end q)
    with Cons show ?thesis by auto
  qed
qed simp

lemma chart_run_mem:
  "(p, ph) \<in> set (chart_run s evs) \<longleftrightarrow>
     (\<exists>xs ys. evs = xs @ Read_end p # ys \<and> ph = photo_of (snd (foldl ev_step s xs) p))"
proof (induction s evs rule: chart_run.induct)
  case (4 s q evs)
  have "(p, ph) \<in> set (chart_run s (Read_end q # evs)) \<longleftrightarrow>
      (q = p \<and> ph = photo_of (snd s p)) \<or>
      (\<exists>xs ys. evs = xs @ Read_end p # ys \<and> ph = photo_of (snd (foldl ev_step s xs) p))"
    using 4 by auto
  also have "\<dots> \<longleftrightarrow> (\<exists>xs ys. Read_end q # evs = xs @ Read_end p # ys \<and>
      ph = photo_of (snd (foldl ev_step s xs) p))"
    using ex_Cons_append [of "Read_end q" evs "Read_end p" "\<lambda>xs. ph = photo_of (snd (foldl ev_step s xs) p)"]
    by simp
  finally show ?case .
next
  case (2 s q evs)
  have "(p, ph) \<in> set (chart_run s (Save_chart q # evs)) \<longleftrightarrow>
      (\<exists>xs ys. evs = xs @ Read_end p # ys \<and> ph = photo_of (snd (foldl ev_step (ev_step s (Save_chart q)) xs) p))"
    using 2 by simp
  also have "\<dots> \<longleftrightarrow> (\<exists>xs ys. Save_chart q # evs = xs @ Read_end p # ys \<and>
      ph = photo_of (snd (foldl ev_step s xs) p))"
    using ex_Cons_append [of "Save_chart q" evs "Read_end p" "\<lambda>xs. ph = photo_of (snd (foldl ev_step s xs) p)"]
    by simp
  finally show ?case .
next
  case (3 s q evs)
  have "(p, ph) \<in> set (chart_run s (Read_begin q # evs)) \<longleftrightarrow>
      (\<exists>xs ys. evs = xs @ Read_end p # ys \<and> ph = photo_of (snd (foldl ev_step (ev_step s (Read_begin q)) xs) p))"
    using 3 by simp
  also have "\<dots> \<longleftrightarrow> (\<exists>xs ys. Read_begin q # evs = xs @ Read_end p # ys \<and>
      ph = photo_of (snd (foldl ev_step s xs) p))"
    using ex_Cons_append [of "Read_begin q" evs "Read_end p" "\<lambda>xs. ph = photo_of (snd (foldl ev_step s xs) p)"]
    by simp
  finally show ?case .
qed simp

text \<open>The events of one request in a trace: its save, the begin and the end of its read,
  nothing else.\<close>

lemma pid_free:
  "\<forall>e\<in>set w. ev_pid e \<noteq> p \<Longrightarrow>
     Save_chart p \<notin> set w \<and> Read_begin p \<notin> set w \<and> Read_end p \<notin> set w"
  by auto

lemma filter_pid_Cons:
  assumes "filter (\<lambda>e. ev_pid e = p) evs = x # rest"
  obtains us vs where "evs = us @ x # vs" and "\<forall>e\<in>set us. ev_pid e \<noteq> p"
    and "filter (\<lambda>e. ev_pid e = p) vs = rest"
  using filter_eq_Cons_iff [THEN iffD1, OF assms] by fastforce

lemma chart_trace_split:
  assumes "chart_trace evs" and "p \<in> set (map ev_pid evs)"
  obtains xs ys zs ws where "evs = xs @ Save_chart p # ys @ Read_begin p # zs @ Read_end p # ws"
    and "\<forall>e\<in>set xs. ev_pid e \<noteq> p" "\<forall>e\<in>set ys. ev_pid e \<noteq> p"
    and "\<forall>e\<in>set zs. ev_pid e \<noteq> p" "\<forall>e\<in>set ws. ev_pid e \<noteq> p"
proof -
  have f: "filter (\<lambda>e. ev_pid e = p) evs = [Save_chart p, Read_begin p, Read_end p]"
    using assms unfolding chart_trace_def list_all_iff by blast
  obtain xs v1 where e1: "evs = xs @ Save_chart p # v1" and xs: "\<forall>e\<in>set xs. ev_pid e \<noteq> p"
      and f1: "filter (\<lambda>e. ev_pid e = p) v1 = [Read_begin p, Read_end p]"
    using filter_pid_Cons [OF f] by blast
  obtain ys v2 where e2: "v1 = ys @ Read_begin p # v2" and ys: "\<forall>e\<in>set ys. ev_pid e \<noteq> p"
      and f2: "filter (\<lambda>e. ev_pid e = p) v2 = [Read_end p]"
    using filter_pid_Cons [OF f1] by blast
  obtain zs ws where e3: "v2 = zs @ Read_end p # ws" and zs: "\<forall>e\<in>set zs. ev_pid e \<noteq> p"
      and f3: "filter (\<lambda>e. ev_pid e = p) ws = []"
    using filter_pid_Cons [OF f2] by blast
  have "\<forall>e\<in>set ws. ev_pid e \<noteq> p"
    using f3 unfolding filter_empty_conv .
  then show ?thesis
    using that e1 e2 e3 xs ys zs by simp
qed

text \<open>The photo a request sends, from the position of its save and of its read: never a
  missing file, and its own chart exactly when no save comes between its save and the end of
  its read.\<close>

lemma photo_after_save:
  assumes "Save_chart p \<notin> set ys" and "Read_begin p \<notin> set zs"
  shows "photo_of (snd (foldl ev_step s (xs @ Save_chart p # ys @ Read_begin p # zs)) p) \<noteq> No_file \<and>
    (photo_of (snd (foldl ev_step s (xs @ Save_chart p # ys @ Read_begin p # zs)) p) = Photo p \<longleftrightarrow>
       no_save ys \<and> no_save zs)"
proof -
  define s1 where "s1 = foldl ev_step (ev_step (foldl ev_step s xs) (Save_chart p)) ys"
  have whole: "foldl ev_step s (xs @ Save_chart p # ys @ Read_begin p # zs) =
      foldl ev_step (ev_step s1 (Read_begin p)) zs"
    by (simp add: s1_def)
  obtain q where q: "fst s1 = Some q" and qp: "q = p \<longleftrightarrow> no_save ys"
  proof (cases "no_save ys")
    case True
    then have "fst s1 = Some p"
      unfolding s1_def using file_no_save [of ys] by simp
    with True that show ?thesis by blast
  next
    case False
    then obtain q where "Save_chart q \<in> set ys" and "fst s1 = Some q"
      unfolding s1_def using file_last_save [of ys] by blast
    moreover have "q \<noteq> p"
      using assms(1) \<open>Save_chart q \<in> set ys\<close> by auto
    ultimately show ?thesis
      using False that by blast
  qed
  have start: "snd (ev_step s1 (Read_begin p)) p = Some (Reading (Some q))"
    using q by simp
  show ?thesis
  proof (cases "no_save zs")
    case True
    then have "snd (foldl ev_step (ev_step s1 (Read_begin p)) zs) p = Some (Reading (Some q))"
      using read_no_save [OF True assms(2)] start by simp
    then show ?thesis
      unfolding whole using qp True by (simp add: photo_of_def)
  next
    case False
    have "snd (foldl ev_step (ev_step s1 (Read_begin p)) zs) p = Some Torn_read"
      using read_torn_by_save [OF False assms(2) start] .
    then show ?thesis
      unfolding whole using False by (simp add: photo_of_def)
  qed
qed

text \<open>Claim C26: the race on \<open>img/diagram.png\<close>. Under any interleaving of skill requests,
  the photo a request sends is never a missing file, and it is that request's own chart
  exactly when no request saves a chart between its save and the end of its upload's read.
  Otherwise it is another request's chart, or a photo torn by a save during the read.\<close>

theorem chart_photo_own:
  assumes "chart_trace evs" and "(p, ph) \<in> set (chart_run chart_start evs)"
  shows "ph \<noteq> No_file \<and>
    (ph = Photo p \<longleftrightarrow> (\<exists>xs ys ws. evs = xs @ Save_chart p # ys @ Read_end p # ws \<and> no_save ys))"
proof -
  obtain a b where ab: "evs = a @ Read_end p # b" and ph: "ph = photo_of (snd (foldl ev_step chart_start a) p)"
    using assms(2) chart_run_mem by blast
  then have "p \<in> set (map ev_pid evs)"
    by force
  then obtain xs ys zs ws where evs: "evs = xs @ Save_chart p # ys @ Read_begin p # zs @ Read_end p # ws"
      and pxs: "\<forall>e\<in>set xs. ev_pid e \<noteq> p" and pys: "\<forall>e\<in>set ys. ev_pid e \<noteq> p"
      and pzs: "\<forall>e\<in>set zs. ev_pid e \<noteq> p" and pws: "\<forall>e\<in>set ws. ev_pid e \<noteq> p"
    using chart_trace_split [OF assms(1)] by blast
  note free = pid_free [OF pxs] pid_free [OF pys] pid_free [OF pzs] pid_free [OF pws]
  have "a = xs @ Save_chart p # ys @ Read_begin p # zs"
    using ab evs free append_Cons_eq_iff [of "Read_end p" "xs @ Save_chart p # ys @ Read_begin p # zs" ws a b]
    by auto
  then have ph': "ph \<noteq> No_file \<and> (ph = Photo p \<longleftrightarrow> no_save ys \<and> no_save zs)"
    using ph photo_after_save [of p ys zs chart_start xs] free by simp
  have split_iff: "(\<exists>xs' ys' ws'. evs = xs' @ Save_chart p # ys' @ Read_end p # ws' \<and> no_save ys') \<longleftrightarrow>
      no_save ys \<and> no_save zs"
  proof
    assume "\<exists>xs' ys' ws'. evs = xs' @ Save_chart p # ys' @ Read_end p # ws' \<and> no_save ys'"
    then obtain xs' ys' ws' where e': "evs = xs' @ Save_chart p # ys' @ Read_end p # ws'" and n: "no_save ys'"
      by blast
    have "xs' = xs \<and> ys' @ Read_end p # ws' = ys @ Read_begin p # zs @ Read_end p # ws"
      using e' evs free append_Cons_eq_iff [of "Save_chart p" xs "ys @ Read_begin p # zs @ Read_end p # ws" xs'
          "ys' @ Read_end p # ws'"]
      by auto
    then have "ys' = ys @ Read_begin p # zs"
      using free append_Cons_eq_iff [of "Read_end p" "ys @ Read_begin p # zs" ws ys' ws'] by auto
    then show "no_save ys \<and> no_save zs"
      using n by auto
  next
    assume "no_save ys \<and> no_save zs"
    then show "\<exists>xs' ys' ws'. evs = xs' @ Save_chart p # ys' @ Read_end p # ws' \<and> no_save ys'"
      using evs by (intro exI [of _ xs] exI [of _ "ys @ Read_begin p # zs"] exI [of _ ws]) auto
  qed
  show ?thesis
    using ph' split_iff by blast
qed

theorem chart_photo_own_witness:
  "chart_trace [Save_chart 1, Save_chart 2, Read_begin 1, Read_end 1, Read_begin 2, Read_end 2] \<and>
   (1, Photo 2) \<in> set (chart_run chart_start
      [Save_chart 1, Save_chart 2, Read_begin 1, Read_end 1, Read_begin 2, Read_end 2]) \<and>
   Photo 2 \<noteq> No_file \<and>
   \<not> (\<exists>xs ys ws. [Save_chart 1, Save_chart 2, Read_begin 1, Read_end 1, Read_begin 2, Read_end 2] =
      xs @ Save_chart 1 # ys @ Read_end 1 # ws \<and> no_save ys)"
proof -
  have h1: "chart_trace [Save_chart 1, Save_chart 2, Read_begin 1, Read_end 1, Read_begin 2, Read_end (2::nat)]"
    by (simp add: chart_trace_def)
  have h2: "(1, Photo 2) \<in> set (chart_run chart_start
      [Save_chart 1, Save_chart 2, Read_begin 1, Read_end 1, Read_begin 2, Read_end 2])"
    by (simp add: chart_start_def tear_def photo_of_def)
  show ?thesis
    using h1 h2 chart_photo_own [OF h1 h2] by (simp add: photo_of_def)
qed

end
