(* ===== verification/Spec2Isabelle.thy ===== *)
theory Spec2Isabelle
  imports Bootstrap ConversationSpec Chart
begin

text \<open>
  \<^bold>\<open>A verification development of the HeraldBot Telegram bot (TGbot_HH).\<close>

  \<^bold>\<open>The program.\<close> \<open>src/HeraldBot/HeraldBot.py\<close> starts an aiogram dispatcher
  with the router of \<open>src/HeraldBot/app/handlers.py\<close>. The router's handlers talk to
  the user through two-step prompts kept in aiogram's per-user FSM state. \<open>/job\<close>
  asks for a keyword, and \<open>cmd_job\<close> then searches hh.ru for 30 vacancies, fetches
  the details of each one concurrently (\<open>get_key_skills\<close> under
  \<open>asyncio.gather\<close>) and sends a paginated text digest. \<open>/key_skills\<close> asks for a
  keyword, and \<open>cmd_enter_count\<close> searches 100 vacancies, fetches their key skills the
  same way, tallies them in a dict, sorts the dict stably by descending count and sends a
  pie chart of the top ten. \<open>/weather\<close> asks for a city and reports the
  OpenWeatherMap reading, and \<open>/start\<close> greets.

  \<^bold>\<open>The theories.\<close>
  \<^item> \<open>Prelude\<close>: Python strings as lists of Unicode code points (\<open>pystr\<close>), since
    \<open>len\<close> counts code points; Python exceptions as \<open>py_error\<close>; \<open>str()\<close> of an
    integer, \<open>str.join\<close>, a one-character \<open>str.replace\<close>, and the first-error
    traversal of a list comprehension.
  \<^item> \<open>NumberFormat\<close>: \<open>number_format\<close> (lines 33--34), Python's \<open>'{:,}'\<close>
    grouping followed by the replacement of commas with spaces. The lemmas: removing the
    spaces gives \<open>str(n)\<close> back, and the output is the thousands grouping.
  \<^item> \<open>HhApi\<close>: the hh.ru data the code reads (records \<open>vacancy\<close> and \<open>salary\<close>),
    the search and detail replies, the network as a function from request URL to reply,
    the URLs, and \<open>read_items\<close> with its \<open>KeyError\<close>, the
    \<open>ContentTypeError\<close> of a body that is not JSON, and the \<open>ClientError\<close> of a
    request that gets no response.
  \<^item> \<open>FanOut\<close>: \<open>get_key_skills\<close> (lines 25--30) and the concurrent fan-out (lines
    68--75). The tasks complete in an order given as a schedule (a permutation of the
    task indices). Each value goes to its own slot, and the first task to raise makes
    \<open>gather\<close> raise. Lemmas: what \<open>get_key_skills\<close> returns, results are positional whatever
    the schedule, and one failed fetch aborts the whole fan-out.
  \<^item> \<open>Digest\<close>: the block of one vacancy (lines 77--103), with Python truthiness of the
    salary bounds and \<open>None\<close> printed by the f-string, and the pagination loop with its
    4096 test and the not-found fallback (lines 105--116). Lemmas: the messages partition
    the blocks greedily; every message fits when every block does; a first block over
    the limit makes the first message empty; for every salary object the line ignores the
    currency and ends in RUB, prints \<open>None\<close> when both bounds are falsy and prints each
    truthy bound with \<open>number_format\<close>.
  \<^item> \<open>SkillRank\<close>: the tally dict as an association list in insertion order, the
    stable descending sort and the top ten (lines 167, 186--201). Lemmas: the dict holds
    each distinct skill with its occurrence count in first-seen order; the ranking is
    sorted, of length at most ten and keeps the most frequent skills; ties keep first-seen
    order; and the chart data is well formed (distinct labels, positive counts).
  \<^item> \<open>Handlers\<close>: the two search handlers composed from the parts above, as a list of
    sent replies and the exception that ended the run, if any.
  \<^item> \<open>Weather\<close>: the body of \<open>cmd_weather\<close> (lines 125--145), with the
    OpenWeatherMap reply modelled by its status and a body that is either not JSON or has
    the two nested fields, each possibly missing, with the readings in printed form.
    Lemma: a lookup sends one message exactly when the reply is ok with both readings
    (the reading of the requested city) or has a failure status (the bad-city text), and
    it sends nothing exactly when it raises.
  \<^item> \<open>Conversation\<close>: aiogram's \<open>Command\<close> filter, the router as the first
    handler in registration order whose filters match (lines 37--208), the per-user FSM
    context (state and data dict), one message as \<open>dispatch\<close> on a map from (chat,
    user) key to context, and the states reachable from the start as an inductive
    predicate. Lemmas: a pending keyword prompt takes every message but /start and /job
    as the keyword, and the city prompt every message but /start, /job and /weather;
    the data dict of every user is empty in every reachable state; /start keeps a pending prompt; and /job followed by a
    keyword runs the job search on it.
  \<^item> \<open>ConversationSpec\<close>: the specification's per-conversation machine (Idle, or
    awaiting the input of a flow) as a step function with actions, and the refinement
    theorem: on every message the machine covers, \<open>dispatch\<close> moves the user's FSM state
    as the machine does and sends the replies of the machine's action.
  \<^item> \<open>Chart\<close>: the chart file \<open>img/diagram.png\<close> shared by all requests (lines
    203--208). Each request's save, and the beginning and end of its upload's read, are
    events of an interleaving (\<open>chart_trace\<close>: each request's three events in that
    order). The state is the file's last writer and the state of each read; a save
    during a read tears it (\<open>tear\<close>). Lemma: every photo sent is a chart, and it is
    the request's own exactly when no save falls between its save and the end of its read.
  \<^item> \<open>Bootstrap\<close>: \<open>main\<close> of \<open>HeraldBot.py\<close> (lines 9--16): the token read from
    the environment after \<open>load_dotenv()\<close>, aiogram's token validation, the
    \<open>getMe\<close> call of \<open>start_polling\<close> that gives the username the command filter
    compares mentions with, and polling as \<open>dispatch_all\<close> from empty contexts. The
    script block (lines 19--23) prints \<open>Exit\<close> only where Ctrl-C reaches
    \<open>asyncio.run\<close> as \<open>KeyboardInterrupt\<close> (Windows); on POSIX aiogram handles
    SIGINT itself and \<open>main\<close> returns. These are definitions only, used by the
    reader to see how the parts are started.
  \<^item> This theory: properties of whole handler runs (end-to-end digest, empty search,
    a search with a failure status) and the skill chart conversation from /key_skills to
    the chart.

  \<^bold>\<open>Choices of the model.\<close> The network is a parameter: the same URL always gets the
  same reply within one run. Concurrency is modelled by the completion schedule of the
  detail requests. Every valid schedule is allowed, so the theorems hold under every
  interleaving. The bot API is not modelled: a sent message is recorded as a reply, and
  whether Telegram would accept it (non-empty, at most 4096 characters) is stated as a
  property of the replies. The pie chart is recorded as the (label, value) pairs given to
  matplotlib. No loop of the code needs fuel: every loop runs over a finite list and is a
  structural recursion or a fold, and the one non-structural recursion (the digit
  grouping) terminates by the length of its argument. The polling loop of the bot does not
  end; the model runs it on any finite prefix of the updates, which is enough for every
  state and reply up to that point. For these reasons no theorem is a termination claim:
  every function of the model is total by construction, and the only loop that may run
  forever is the polling loop, which ends only by an interrupt (\<open>heraldbot_script\<close>
  models the run cut after the updates received).

  \<^bold>\<open>Not modelled.\<close> URL encoding: the keyword and the city are pasted into
  the request URLs unescaped, and the model keeps them as the raw text of the URL, without
  modelling how the server splits the query. The drawing itself (matplotlib's pie and
  its percentages) is a library call, so a chart is the data given to it. The replies of
  overlapping handler runs may interleave in any order, and only their effect on the shared
  chart file is modelled. Polling is sequential in the model. This is faithful for the FSM
  contexts, because every handler finishes its state changes before its first network
  request. Non-text messages (\<open>message.text\<close> is \<open>None\<close>) are not modelled. The
  JSON shapes the code indexes without checks (\<open>vacancy['experience']['name']\<close> and the
  like) are taken as given by the records, and so are the fields \<open>get_key_skills\<close>
  reads: a \<open>key_skills\<close> field that is JSON \<open>null\<close>, or an entry whose
  \<open>name\<close> is \<open>null\<close>, is not modelled (the code would raise \<open>TypeError\<close> on
  the first and put \<open>None\<close> in the tally on the second). A JSON body that claims to be
  JSON but does not parse (\<open>JSONDecodeError\<close>) is folded into the not-JSON case.
  \<open>str.capitalize\<close> is modelled on Latin and Cyrillic letters, which the bot's
  cities are written in; other scripts are left unchanged by the model. The token's
  numeric part is checked with ASCII digits, where Python's \<open>isdigit\<close> also accepts
  other Unicode digits.
\<close>

section \<open>Whole handler runs\<close>

text \<open>
  Claim C3: the vacancy digest end to end. When the search succeeds and every detail
  fetch returns, under any completion schedule, the handler finishes normally. It sends
  exactly the digest messages of the blocks rendered with, for each index, the vacancy
  and the skills fetched for that same vacancy.
\<close>

theorem cmd_job_search_success:
  assumes "valid_scheduler sched"
    and "search_ok (get_search net (search_url kw job_page_count))"
    and "search_body (get_search net (search_url kw job_page_count)) = Items vs"
    and "\<forall>v \<in> set vs. \<exists>ks. get_key_skills net (detail_url v) = Inr ks"
  shows "\<exists>kss. length kss = length vs \<and>
     (\<forall>i < length vs. get_key_skills net (detail_url (vs ! i)) = Inr (kss ! i)) \<and>
     cmd_job_search net sched kw =
       (map Answer (digest_messages (map (\<lambda>i. render_block i (vs ! i) (kss ! i)) [0..<length vs])), None)"
proof -
  obtain kss where k: "fetch_all net (sched (length vs)) vs = Inr kss" "length kss = length vs"
      "\<forall>i < length vs. get_key_skills net (detail_url (vs ! i)) = Inr (kss ! i)"
    using fetch_all_all_ok [of vs "sched (length vs)" net] assms(1,4)
    by (auto simp: valid_scheduler_def)
  then show ?thesis
    using assms(2,3)
    by (intro exI [of _ kss]) (simp add: cmd_job_search_def search_step_def read_items_def render_blocks_def)
qed

theorem cmd_job_search_success_witness:
  "\<exists>ms. cmd_job_search (skills_net \<lparr>search_ok = True, search_body = Items sample_items\<rparr>) in_order
     (u ''python'') = (ms, None)"
proof -
  have s: "valid_scheduler in_order"
    by (simp add: valid_scheduler_def valid_schedule_def atLeast0LessThan)
  have d: "\<forall>v \<in> set sample_items. \<exists>ks. get_key_skills
      (skills_net \<lparr>search_ok = True, search_body = Items sample_items\<rparr>) (detail_url v) = Inr ks"
    by (simp add: get_key_skills_def detail_url_def skill_name_def)
  show ?thesis
    using cmd_job_search_success [OF s _ _ d, of "u ''python''"] by auto
qed

text \<open>
  Claim C11: an empty search result gives the not-found message. When the search succeeds
  with no vacancies, the handler sends exactly one message, the fixed "No vacancies
  found" text, and finishes normally.
\<close>

theorem cmd_job_search_not_found:
  assumes "valid_scheduler sched"
    and "search_ok (get_search net (search_url kw job_page_count))"
    and "search_body (get_search net (search_url kw job_page_count)) = Items []"
  shows "cmd_job_search net sched kw = ([Answer msg_not_found], None)"
proof -
  have "sched 0 = []"
    using assms(1) unfolding valid_scheduler_def valid_schedule_def
    by (metis lessThan_0 set_empty)
  with assms(2,3) show ?thesis
    by (simp add: cmd_job_search_def search_step_def read_items_def fetch_all_def gather_def
        render_blocks_def digest_messages_def)
qed

theorem cmd_job_search_not_found_witness:
  "cmd_job_search (skills_net \<lparr>search_ok = True, search_body = Items []\<rparr>) in_order (u ''python'') =
     ([Answer msg_not_found], None)"
  by (rule cmd_job_search_not_found) (simp_all add: valid_scheduler_def valid_schedule_def atLeast0LessThan)

text \<open>
  Claim C12: a failed search does not stop the handler. When the search request completes
  with a status that is not a success, the handler sends the error text and then behaves exactly as if the same body
  had come with a success status. For the API's error bodies, which have no
  \<open>items\<close>, it then raises \<open>KeyError('items')\<close>.
\<close>

theorem cmd_job_search_failure_continues:
  assumes "get_search net (search_url kw job_page_count) = r" and "\<not> search_ok r"
    and "search_body r \<noteq> Search_Failed"
  shows "cmd_job_search net sched kw =
     (Answer msg_error # fst (cmd_job_search (net\<lparr>get_search := (\<lambda>_. r\<lparr>search_ok := True\<rparr>)\<rparr>) sched kw),
      snd (cmd_job_search (net\<lparr>get_search := (\<lambda>_. r\<lparr>search_ok := True\<rparr>)\<rparr>) sched kw))"
proof -
  let ?net = "net\<lparr>get_search := (\<lambda>_. r\<lparr>search_ok := True\<rparr>)\<rparr>"
  have f: "fetch_all ?net = fetch_all net"
    by (simp add: fetch_all_def get_key_skills_def fun_eq_iff)
  have i: "read_items (r\<lparr>search_ok := True\<rparr>) = read_items r"
    by (simp add: read_items_def)
  show ?thesis
    using assms f i
    by (cases "read_items r"; cases "fetch_all net (sched (length (projr (read_items r)))) (projr (read_items r))")
       (simp_all add: cmd_job_search_def search_step_def)
qed

theorem cmd_job_search_failure_continues_witness:
  "cmd_job_search (skills_net \<lparr>search_ok = False, search_body = No_Items\<rparr>) in_order (u ''python'') =
     ([Answer msg_error], Some (KeyError (u ''items'')))"
  using cmd_job_search_failure_continues [of "skills_net \<lparr>search_ok = False, search_body = No_Items\<rparr>"
      "u ''python''" "\<lparr>search_ok = False, search_body = No_Items\<rparr>" in_order]
  by (simp add: cmd_job_search_def search_step_def read_items_def)

text \<open>
  Claim C10: the skill chart end to end. When the search succeeds and every detail fetch
  returns, under any completion schedule, the handler sends one photo. The photo is the
  ranking of the skills fetched for the vacancies, in vacancy order.
\<close>

theorem cmd_key_skills_search_success:
  assumes "valid_scheduler sched"
    and "search_ok (get_search net (search_url kw skills_page_count))"
    and "search_body (get_search net (search_url kw skills_page_count)) = Items vs"
    and "\<forall>v \<in> set vs. \<exists>ks. get_key_skills net (detail_url v) = Inr ks"
  shows "\<exists>kss. length kss = length vs \<and>
     (\<forall>i < length vs. get_key_skills net (detail_url (vs ! i)) = Inr (kss ! i)) \<and>
     cmd_key_skills_search net sched kw = ([Answer_Photo (rank_skills kss)], None)"
proof -
  obtain kss where k: "fetch_all net (sched (length vs)) vs = Inr kss" "length kss = length vs"
      "\<forall>i < length vs. get_key_skills net (detail_url (vs ! i)) = Inr (kss ! i)"
    using fetch_all_all_ok [of vs "sched (length vs)" net] assms(1,4)
    by (auto simp: valid_scheduler_def)
  then show ?thesis
    using assms(2,3)
    by (intro exI [of _ kss]) (simp add: cmd_key_skills_search_def search_step_def read_items_def)
qed

theorem cmd_key_skills_search_success_witness:
  "\<exists>kss. cmd_key_skills_search (skills_net \<lparr>search_ok = True, search_body = Items sample_items\<rparr>)
     in_order (u ''python'') = ([Answer_Photo (rank_skills kss)], None)"
proof -
  have s: "valid_scheduler in_order"
    by (simp add: valid_scheduler_def valid_schedule_def atLeast0LessThan)
  have d: "\<forall>v \<in> set sample_items. \<exists>ks. get_key_skills
      (skills_net \<lparr>search_ok = True, search_body = Items sample_items\<rparr>) (detail_url v) = Inr ks"
    by (simp add: get_key_skills_def detail_url_def skill_name_def)
  show ?thesis
    using cmd_key_skills_search_success [OF s _ _ d, of "u ''python''"] by auto
qed

text \<open>
  Claim C17: the skill chart conversation end to end. A user with no pending prompt sends
  /key_skills and then a plain-text keyword. When the search for that keyword succeeds and
  every detail fetch returns, under any completion schedule, the bot sends the keyword
  prompt and then one chart, the ranking of the skills fetched for the found vacancies.
  The user's context is left empty.
\<close>

theorem skills_conversation_end_to_end:
  assumes "ctx_state (b k) = None" and "command_of (env_me e) t = None"
    and "valid_scheduler (env_sched e)"
    and "search_ok (get_search (env_hh e) (search_url t skills_page_count))"
    and "search_body (get_search (env_hh e) (search_url t skills_page_count)) = Items vs"
    and "\<forall>v \<in> set vs. \<exists>ks. get_key_skills (env_hh e) (detail_url v) = Inr ks"
  shows "\<exists>kss. length kss = length vs \<and>
     (\<forall>i < length vs. get_key_skills (env_hh e) (detail_url (vs ! i)) = Inr (kss ! i)) \<and>
     dispatch_all e b [(k, u ''/key_skills''), (k, t)] =
       (b(k := empty_context), [Answer prompt_keyword, Answer_Photo (rank_skills kss)])"
proof -
  obtain kss where k: "fetch_all (env_hh e) (env_sched e (length vs)) vs = Inr kss"
      "length kss = length vs"
      "\<forall>i < length vs. get_key_skills (env_hh e) (detail_url (vs ! i)) = Inr (kss ! i)"
    using fetch_all_all_ok [of vs "env_sched e (length vs)" "env_hh e"] assms(3,6)
    by (auto simp: valid_scheduler_def)
  have run: "cmd_key_skills_search (env_hh e) (env_sched e) t = ([Answer_Photo (rank_skills kss)], None)"
    using k(1) assms(4,5) by (simp add: cmd_key_skills_search_def search_step_def read_items_def)
  let ?b1 = "b(k := (b k)\<lparr>ctx_state := Some Job_keyword_2\<rparr>)"
  have "dispatch e ?b1 k t = (?b1(k := empty_context), [Answer_Photo (rank_skills kss)], None)"
    using route_plain_text [OF assms(2)] run
    by (simp add: dispatch_def run_handler_def take_keyword_eq)
  then show ?thesis
    using k(2,3) dispatch_key_skills_idle [where b = b and k = k and e = e, OF assms(1)]
    by (intro exI [of _ kss]) (simp split: prod.split)
qed

theorem skills_conversation_end_to_end_witness:
  "\<exists>kss. dispatch_all sample_env (\<lambda>_. empty_context) [((1, 1), u ''/key_skills''), ((1, 1), u ''python'')] =
     ((\<lambda>_. empty_context)((1, 1) := empty_context), [Answer prompt_keyword, Answer_Photo (rank_skills kss)])"
proof -
  have h1: "ctx_state ((\<lambda>_. empty_context) (1, 1)) = None"
    by (simp add: empty_context_def)
  have h2: "command_of (env_me sample_env) (u ''python'') = None"
    by (simp add: command_of_def first_word_def py_isspace_def eval_simps)
  have h3: "valid_scheduler (env_sched sample_env)"
    by (simp add: valid_scheduler_def valid_schedule_def atLeast0LessThan)
  have h6: "\<forall>v \<in> set sample_items. \<exists>ks. get_key_skills (env_hh sample_env) (detail_url v) = Inr ks"
    by (simp add: get_key_skills_def detail_url_def skill_name_def)
  show ?thesis
    using skills_conversation_end_to_end [where b = "\<lambda>_. empty_context" and k = "(1, 1)"
        and e = sample_env and t = "u ''python''" and vs = sample_items, OF h1 h2 h3 _ _ h6]
    by auto
qed

end
